theory Spec2Isabelle
  imports Main "HOL-Library.Sublist"
begin

section \<open>Data model of \<^verbatim>\<open>models.py\<close>\<close>

text \<open>
  Python strings are modelled as \<^typ>\<open>string\<close>; the day codes of a parsed class time are
  one-letter strings, so the list \<^verbatim>\<open>days\<close> is a list of characters. The dictionary that
  \<^verbatim>\<open>parse_class_time\<close> returns is the record \<open>time_data\<close>, with the keys of the source.
\<close>

record time_data =
  days :: "char list"
  day_names :: "string list"
  start_time :: string
  end_time :: string
  start_minutes :: int
  end_minutes :: int
  duration_minutes :: int

text \<open>
  A selected course as \<^verbatim>\<open>detect_conflicts\<close> reads it: \<^verbatim>\<open>course.get(k)\<close> is \<open>None\<close> for a
  missing key, so the three descriptive keys are optional, and \<^verbatim>\<open>time_data\<close> is present
  only when the class time could be parsed (\<^verbatim>\<open>app.py\<close> stores it only then).
\<close>

record selected_course =
  s_crn :: "string option"
  s_course :: "string option"
  s_professor :: "string option"
  s_time_data :: "time_data option"

record course_ref =
  r_crn :: "string option"
  r_course :: "string option"
  r_professor :: "string option"

text \<open>
  The Conflict dictionary. Its \<^verbatim>\<open>conflicting_days\<close> is \<^verbatim>\<open>list(shared_days)\<close>, a list.
\<close>

record conflict =
  course1 :: course_ref
  course2 :: course_ref
  conflicting_days :: "char list"
  time1 :: string
  time2 :: string

section \<open>Conflict detection (\<^verbatim>\<open>detect_conflicts\<close>)\<close>

text \<open>
  \<^verbatim>\<open>list(set(d1) & set(d2))\<close> lists the elements of a Python set in the set's iteration
  order. Python fixes the elements of that list and not their order: the order follows
  the hashes of the strings, which change with the hash seed of the interpreter process,
  and the way the set was built. Within one process it is a function of the two day
  lists; that function is a parameter of the model, of the type \<open>day_order\<close>. In
  CPython 3.11 the day lists \<^verbatim>\<open>['M', 'W']\<close> and \<^verbatim>\<open>['M', 'W']\<close> give \<^verbatim>\<open>['M', 'W']\<close> under
  \<^verbatim>\<open>PYTHONHASHSEED=0\<close> and \<^verbatim>\<open>['W', 'M']\<close> under \<^verbatim>\<open>PYTHONHASHSEED=1\<close>.
\<close>

type_synonym day_order = "char list \<Rightarrow> char list \<Rightarrow> char list"

text \<open>What Python guarantees of every such function: the list holds the common elements
  of the two lists, each once.\<close>

definition lists_shared_days :: "day_order \<Rightarrow> bool" where
  "lists_shared_days so = (\<forall>d1 d2. set (so d1 d2) = set d1 \<inter> set d2 \<and> distinct (so d1 d2))"

definition ref_of :: "selected_course \<Rightarrow> course_ref" where
  "ref_of c = \<lparr>r_crn = s_crn c, r_course = s_course c, r_professor = s_professor c\<rparr>"

definition time_range :: "time_data \<Rightarrow> string" where
  "time_range t = start_time t @ '' - '' @ end_time t"

definition conflict_record ::
  "day_order \<Rightarrow> selected_course \<Rightarrow> time_data \<Rightarrow> selected_course \<Rightarrow> time_data \<Rightarrow> conflict" where
  "conflict_record so c1 t1 c2 t2 =
     \<lparr>course1 = ref_of c1, course2 = ref_of c2,
      conflicting_days = so (days t1) (days t2),
      time1 = time_range t1, time2 = time_range t2\<rparr>"

text \<open>
  The inner loop \<^verbatim>\<open>for j, course2 in enumerate(courses[i+1:], i+1)\<close>: its list argument is
  the slice still to visit, \<open>conflicts\<close> the list built so far. The test
  \<^verbatim>\<open>if shared_days\<close> asks whether the set is non-empty, which does not depend on its order.
\<close>

fun inner_loop ::
  "day_order \<Rightarrow> selected_course \<Rightarrow> time_data \<Rightarrow> selected_course list \<Rightarrow> conflict list
     \<Rightarrow> conflict list" where
  "inner_loop so c1 t1 [] conflicts = conflicts"
| "inner_loop so c1 t1 (c2 # rest) conflicts =
     (case s_time_data c2 of
        None \<Rightarrow> inner_loop so c1 t1 rest conflicts
      | Some t2 \<Rightarrow>
          if set (days t1) \<inter> set (days t2) \<noteq> {} then
            if start_minutes t1 < end_minutes t2 \<and> end_minutes t1 > start_minutes t2
            then inner_loop so c1 t1 rest (conflicts @ [conflict_record so c1 t1 c2 t2])
            else inner_loop so c1 t1 rest conflicts
          else inner_loop so c1 t1 rest conflicts)"

text \<open>The outer loop \<^verbatim>\<open>for i, course1 in enumerate(courses)\<close>; \<open>rest\<close> is \<^verbatim>\<open>courses[i+1:]\<close>.\<close>

fun outer_loop :: "day_order \<Rightarrow> selected_course list \<Rightarrow> conflict list \<Rightarrow> conflict list" where
  "outer_loop so [] conflicts = conflicts"
| "outer_loop so (c1 # rest) conflicts =
     (case s_time_data c1 of
        None \<Rightarrow> outer_loop so rest conflicts
      | Some t1 \<Rightarrow> outer_loop so rest (inner_loop so c1 t1 rest conflicts))"

text \<open>A run of \<^verbatim>\<open>detect_conflicts\<close> in a process whose sets iterate as \<open>so\<close> says.\<close>

definition detect_conflicts :: "day_order \<Rightarrow> selected_course list \<Rightarrow> conflict list" where
  "detect_conflicts so courses = outer_loop so courses []"

text \<open>
  The specification's reading of the detector. A pair of sections yields a Conflict when
  both carry an interval, their day sets meet and the half-open intervals intersect; the
  pairs of positions are taken with the first index ascending and, for each first index,
  the second ascending.
\<close>

definition conflict_of :: "day_order \<Rightarrow> selected_course \<Rightarrow> selected_course \<Rightarrow> conflict option" where
  "conflict_of so c1 c2 =
     (case (s_time_data c1, s_time_data c2) of
        (Some t1, Some t2) \<Rightarrow>
          if set (days t1) \<inter> set (days t2) \<noteq> {} \<and>
             start_minutes t1 < end_minutes t2 \<and> end_minutes t1 > start_minutes t2
          then Some (conflict_record so c1 t1 c2 t2) else None
      | _ \<Rightarrow> None)"

definition overlapping :: "selected_course \<Rightarrow> selected_course \<Rightarrow> bool" where
  "overlapping c1 c2 =
     (case (s_time_data c1, s_time_data c2) of
        (Some t1, Some t2) \<Rightarrow>
          set (days t1) \<inter> set (days t2) \<noteq> {} \<and>
          start_minutes t1 < end_minutes t2 \<and> end_minutes t1 > start_minutes t2
      | _ \<Rightarrow> False)"

definition index_pairs :: "nat \<Rightarrow> (nat \<times> nat) list" where
  "index_pairs n = concat (map (\<lambda>i. map (Pair i) [Suc i..<n]) [0..<n])"

definition conflict_pairs :: "selected_course list \<Rightarrow> (nat \<times> nat) list" where
  "conflict_pairs cs = filter (\<lambda>(i, j). overlapping (cs ! i) (cs ! j)) (index_pairs (length cs))"

definition pair_before :: "nat \<times> nat \<Rightarrow> nat \<times> nat \<Rightarrow> bool" where
  "pair_before p q = (fst p < fst q \<or> (fst p = fst q \<and> snd p < snd q))"

text \<open>A Conflict with the order of its day letters forgotten: the two course references,
  the set of conflicting days and the two time strings.\<close>

definition content :: "conflict \<Rightarrow> course_ref \<times> course_ref \<times> char set \<times> string \<times> string" where
  "content c = (course1 c, course2 c, set (conflicting_days c), time1 c, time2 c)"

text \<open>Whether two processes list the shared days of every two sections of \<open>cs\<close> that
  carry an interval in the same order.\<close>

definition same_day_order :: "day_order \<Rightarrow> day_order \<Rightarrow> selected_course list \<Rightarrow> bool" where
  "same_day_order so so' cs =
     list_all (\<lambda>c1. list_all (\<lambda>c2.
         case (s_time_data c1, s_time_data c2) of
           (Some t1, Some t2) \<Rightarrow> so (days t1) (days t2) = so' (days t1) (days t2)
         | _ \<Rightarrow> True) cs) cs"

text \<open>
  The same enumeration written by recursion on the list, one section against the
  sections after it.
\<close>

fun all_conflicts :: "day_order \<Rightarrow> selected_course list \<Rightarrow> conflict list" where
  "all_conflicts so [] = []"
| "all_conflicts so (c # rest) = List.map_filter (conflict_of so c) rest @ all_conflicts so rest"

text \<open>Sections used in the worked examples: a CRN, day letters and an interval in minutes.\<close>

definition mk_time :: "char list \<Rightarrow> int \<Rightarrow> int \<Rightarrow> time_data" where
  "mk_time ds s e =
     \<lparr>days = ds, day_names = [], start_time = ''s'', end_time = ''e'',
      start_minutes = s, end_minutes = e, duration_minutes = e - s\<rparr>"

definition mk_course :: "string \<Rightarrow> time_data option \<Rightarrow> selected_course" where
  "mk_course n t = \<lparr>s_crn = Some n, s_course = None, s_professor = None, s_time_data = t\<rparr>"

text \<open>Two iteration orders for the worked examples: the shared days in the order of the
  first list, and in the reverse of that order.\<close>

definition days_in_order :: day_order where
  "days_in_order d1 d2 = filter (\<lambda>d. d \<in> set d2) (remdups d1)"

definition days_in_reverse :: day_order where
  "days_in_reverse d1 d2 = rev (days_in_order d1 d2)"

section \<open>Strings\<close>

text \<open>
  The source works on Python \<^verbatim>\<open>str\<close> values. The model covers the ASCII range: the
  character classes below are those of Python and of its \<^verbatim>\<open>re\<close> module on code points
  below 128, and a character outside that range is neither a letter, a digit nor white
  space here.
\<close>

definition is_upper :: "char \<Rightarrow> bool" where
  "is_upper c = (let n = (of_char c :: nat) in 65 \<le> n \<and> n \<le> 90)"

definition is_lower :: "char \<Rightarrow> bool" where
  "is_lower c = (let n = (of_char c :: nat) in 97 \<le> n \<and> n \<le> 122)"

definition is_digit :: "char \<Rightarrow> bool" where
  "is_digit c = (let n = (of_char c :: nat) in 48 \<le> n \<and> n \<le> 57)"

text \<open>\<^verbatim>\<open>str.isspace\<close> and the class \<^verbatim>\<open>\s\<close>: tab to carriage return, the four separators
  \<^verbatim>\<open>\x1c\<close> to \<^verbatim>\<open>\x1f\<close>, and the space.\<close>

definition is_space :: "char \<Rightarrow> bool" where
  "is_space c = (let n = (of_char c :: nat) in (9 \<le> n \<and> n \<le> 13) \<or> (28 \<le> n \<and> n \<le> 32))"

text \<open>The class \<^verbatim>\<open>\w\<close>, which decides the word boundary \<^verbatim>\<open>\b\<close>.\<close>

definition is_word :: "char \<Rightarrow> bool" where
  "is_word c = (is_upper c \<or> is_lower c \<or> is_digit c \<or> c = CHR ''_'')"

definition to_lower :: "char \<Rightarrow> char" where
  "to_lower c = (if is_upper c then char_of (of_char c + (32 :: nat)) else c)"

definition to_upper :: "char \<Rightarrow> char" where
  "to_upper c = (if is_lower c then char_of (of_char c - (32 :: nat)) else c)"

definition lower :: "string \<Rightarrow> string" where
  "lower s = map to_lower s"

definition upper :: "string \<Rightarrow> string" where
  "upper s = map to_upper s"

definition strip :: "string \<Rightarrow> string" where
  "strip s = rev (dropWhile is_space (rev (dropWhile is_space s)))"

text \<open>\<^verbatim>\<open>s.replace(a, b)\<close> for a one-character \<open>a\<close>; \<open>b\<close> is any string.\<close>

definition replace_char :: "char \<Rightarrow> string \<Rightarrow> string \<Rightarrow> string" where
  "replace_char a b s = concat (map (\<lambda>c. if c = a then b else [c]) s)"

text \<open>\<^verbatim>\<open>s.split()\<close>: the maximal runs of characters that are not white space. The first
  argument is the run being read.\<close>

fun split_run :: "string \<Rightarrow> string \<Rightarrow> string list" where
  "split_run cur [] = (if cur = [] then [] else [cur])"
| "split_run cur (c # cs) =
     (if is_space c then (if cur = [] then split_run [] cs else cur # split_run [] cs)
      else split_run (cur @ [c]) cs)"

definition split :: "string \<Rightarrow> string list" where
  "split s = split_run [] s"

text \<open>\<^verbatim>\<open>needle in hay\<close>.\<close>

fun contains :: "string \<Rightarrow> string \<Rightarrow> bool" where
  "contains [] needle = (needle = [])"
| "contains (h # rest) needle = (take (length needle) (h # rest) = needle \<or> contains rest needle)"

text \<open>Truthiness of an optional string: \<^verbatim>\<open>None\<close> and the empty string are false.\<close>

definition truthy :: "string option \<Rightarrow> bool" where
  "truthy v = (case v of None \<Rightarrow> False | Some s \<Rightarrow> s \<noteq> [])"

text \<open>\<^verbatim>\<open>v or d\<close> for an optional string \<open>v\<close> and a default \<open>d\<close>.\<close>

definition or_default :: "string option \<Rightarrow> string \<Rightarrow> string" where
  "or_default v d = (case v of None \<Rightarrow> d | Some s \<Rightarrow> if s = [] then d else s)"

section \<open>Name normalisation and matching (\<^verbatim>\<open>scraper_module.py\<close>)\<close>

text \<open>
  \<^verbatim>\<open>re.sub(r'\([^)]*\)', '', name)\<close>: scanning from the left, an opening parenthesis that
  has a closing one after it is removed together with everything up to the first closing
  one; an opening parenthesis with no closing one after it stays.
\<close>

function remove_parens :: "string \<Rightarrow> string" where
  "remove_parens [] = []"
| "remove_parens (c # cs) =
     (if c = CHR ''('' then
        (case dropWhile (\<lambda>d. d \<noteq> CHR '')'') cs of
           [] \<Rightarrow> c # remove_parens cs
         | _ # after \<Rightarrow> remove_parens after)
      else c # remove_parens cs)"
  by pat_completeness auto
termination
proof (relation "measure length")
  fix c :: char and cs x after
  assume "dropWhile (\<lambda>d. d \<noteq> CHR '')'') cs = x # after"
  then have "length after < length (dropWhile (\<lambda>d. d \<noteq> CHR '')'') cs)" by simp
  also have "\<dots> \<le> length cs" by (rule length_dropWhile_le)
  finally show "(after, c # cs) \<in> measure length" by simp
qed simp_all

text \<open>\<^verbatim>\<open>re.sub(r'\.([A-Z])', r' \1', s)\<close>: a period directly before a capital letter becomes
  a space.\<close>

fun space_after_period :: "string \<Rightarrow> string" where
  "space_after_period (c # d # rest) =
     (if c = CHR ''.'' \<and> is_upper d then CHR '' '' # d # space_after_period rest
      else c # space_after_period (d # rest))"
| "space_after_period s = s"

text \<open>\<^verbatim>\<open>re.findall(r'[A-Z][^A-Z]*', s)\<close>: each capital letter with the characters up to the
  next capital; what precedes the first capital is dropped.\<close>

function capital_chunks :: "string \<Rightarrow> string list" where
  "capital_chunks [] = []"
| "capital_chunks (c # cs) =
     (if is_upper c
      then (c # takeWhile (\<lambda>d. \<not> is_upper d) cs) # capital_chunks (dropWhile (\<lambda>d. \<not> is_upper d) cs)
      else capital_chunks cs)"
  by pat_completeness auto
termination
  by (relation "measure length") (auto simp: length_dropWhile_le less_Suc_eq_le)

definition special_prefixes :: "string list" where
  "special_prefixes =
     [''Mc'', ''Mac'', ''O'' @ [CHR 0x27], ''De'', ''Van'', ''Von'', ''La'', ''Le'', ''St'', ''Saint'']"

text \<open>The \<^verbatim>\<open>while i < len(split_parts)\<close> loop: a prefix that has a successor is glued
  to it and both are consumed.\<close>

fun merge_prefixes :: "string list \<Rightarrow> string list" where
  "merge_prefixes (current # next # rest) =
     (if current \<in> set special_prefixes then (current @ next) # merge_prefixes rest
      else current # merge_prefixes (next # rest))"
| "merge_prefixes ps = ps"

text \<open>\<^verbatim>\<open>re.match(r'^([a-z]+)([A-Z].*)', s)\<close> on a string without white space: the leading
  lower-case run, which must be non-empty and followed by a capital, and the rest.\<close>

definition lower_then_capital :: "string \<Rightarrow> (string \<times> string) option" where
  "lower_then_capital s =
     (let first = takeWhile is_lower s; rest = dropWhile is_lower s
      in if first \<noteq> [] \<and> (case rest of [] \<Rightarrow> False | d # _ \<Rightarrow> is_upper d)
         then Some (first, rest) else None)"

text \<open>The branch taken when \<^verbatim>\<open>split()\<close> gave exactly one part.\<close>

definition split_single :: "string \<Rightarrow> string list" where
  "split_single p =
     (let split_parts = capital_chunks p in
      if length split_parts \<ge> 2 then merge_prefixes split_parts
      else if length split_parts = 1 then
        (case lower_then_capital p of
           None \<Rightarrow> [p]
         | Some (first, rest) \<Rightarrow>
             (let rest_parts = capital_chunks rest in
              if length rest_parts \<ge> 2 then first # merge_prefixes rest_parts
              else [first, rest]))
      else [p])"

definition clean_part :: "string \<Rightarrow> string" where
  "clean_part p = replace_char (CHR ''.'') [] (strip (lower p))"

text \<open>
  The final loop \<^verbatim>\<open>for i, p in enumerate(parts)\<close>, with \<open>n = len(parts)\<close> and \<open>i\<close> the
  index of the head of the list. The three branches of the source are kept; the second
  and the third both \<^verbatim>\<open>continue\<close>.
\<close>

fun filter_parts :: "nat \<Rightarrow> nat \<Rightarrow> string list \<Rightarrow> string list" where
  "filter_parts n i [] = []"
| "filter_parts n i (p # ps) =
     (let p_clean = clean_part p in
      if length p_clean > 1 then p_clean # filter_parts n (Suc i) ps
      else if length p_clean = 1 \<and> i > 0 \<and> int i < int n - 1 then filter_parts n (Suc i) ps
      else if length p_clean = 1 then filter_parts n (Suc i) ps
      else filter_parts n (Suc i) ps)"

definition normalize_name :: "string \<Rightarrow> string list" where
  "normalize_name name =
     (let name_clean = remove_parens name;
          name_clean = replace_char (CHR '','') '' '' name_clean;
          name_clean = space_after_period name_clean;
          parts = split name_clean;
          parts = (case parts of [p] \<Rightarrow> split_single p | _ \<Rightarrow> parts)
      in filter_parts (length parts) 0 parts)"

definition match_professor_name_strict :: "string \<Rightarrow> string \<Rightarrow> bool" where
  "match_professor_name_strict search_name card_name =
     (let search_parts = normalize_name search_name;
          card_parts = normalize_name card_name
      in if length search_parts < 2 then False
         else if length card_parts < 2 then False
         else
           (let search_first = hd search_parts; search_last = last search_parts;
                card_first = hd card_parts; card_last = last card_parts;
                first_matches = (search_first = card_first);
                last_matches = (search_last = card_last)
            in if first_matches \<and> last_matches then True
               else if length card_parts \<ge> 2
                       \<and> search_first = last card_parts \<and> search_last = hd card_parts
               then True
               else False))"

section \<open>Course records and de-duplication (\<^verbatim>\<open>parse_course_info\<close>)\<close>

text \<open>The dictionary that the extractors return for one course section.\<close>

record course_info =
  course :: string
  crn :: string
  professor :: string
  class_time :: string
  format :: string

text \<open>
  The loop that closes \<^verbatim>\<open>parse_course_info\<close>: \<open>seen_crns\<close> is the set of CRNs met so
  far, \<open>unique_courses\<close> the list built so far.
\<close>

fun dedup_loop :: "string set \<Rightarrow> course_info list \<Rightarrow> course_info list \<Rightarrow> course_info list" where
  "dedup_loop seen_crns unique_courses [] = unique_courses"
| "dedup_loop seen_crns unique_courses (c # courses) =
     (if crn c \<notin> seen_crns \<or> crn c = ''N/A''
      then dedup_loop (insert (crn c) seen_crns) (unique_courses @ [c]) courses
      else dedup_loop seen_crns unique_courses courses)"

definition remove_duplicates :: "course_info list \<Rightarrow> course_info list" where
  "remove_duplicates courses = dedup_loop {} [] courses"

text \<open>A record with a given CRN and professor, for the worked examples.\<close>

definition mk_info :: "string \<Rightarrow> string \<Rightarrow> course_info" where
  "mk_info k p =
     \<lparr>course = ''MATH 1A'', crn = k, professor = p, class_time = ''TBA'', format = ''Unknown''\<rparr>"

section \<open>Class-time parsing (\<^verbatim>\<open>parse_class_time\<close>)\<close>

definition DAY_MAP :: "(char \<times> string) list" where
  "DAY_MAP =
     [(CHR ''M'', ''Monday''), (CHR ''T'', ''Tuesday''), (CHR ''W'', ''Wednesday''),
      (CHR ''R'', ''Thursday''), (CHR ''F'', ''Friday''), (CHR ''S'', ''Saturday''),
      (CHR ''U'', ''Sunday'')]"

text \<open>\<^verbatim>\<open>re.match(r'^([MTWRFSU\s]+)', s)\<close>: the leading run of day letters and white space,
  which must not be empty.\<close>

definition days_match :: "string \<Rightarrow> string option" where
  "days_match s =
     (let run = takeWhile (\<lambda>c. c \<in> set ''MTWRFSU'' \<or> is_space c) s
      in if run = [] then None else Some run)"

subsection \<open>The time-range pattern\<close>

text \<open>
  The pattern \<^verbatim>\<open>(\d{1,2}:\d{2}\s*[AP]M)\s*-\s*(\d{1,2}:\d{2}\s*[AP]M)\<close>, case-insensitive,
  is matched by small readers that return the text left after what they consume.
  The greedy \<^verbatim>\<open>\d{1,2}\<close> is tried with two digits and then with one, for each of the two
  groups, in the order in which the matcher backtracks. A \<^verbatim>\<open>\s*\<close> takes all the white
  space there is: what must follow it is never a white-space character, so giving some
  back cannot make a failed match succeed.
\<close>

definition take_digits :: "nat \<Rightarrow> string \<Rightarrow> string option" where
  "take_digits n s =
     (if n \<le> length s \<and> list_all is_digit (take n s) then Some (drop n s) else None)"

definition expect :: "char \<Rightarrow> string \<Rightarrow> string option" where
  "expect c s = (case s of [] \<Rightarrow> None | x # rest \<Rightarrow> if x = c then Some rest else None)"

definition skip_spaces :: "string \<Rightarrow> string" where
  "skip_spaces s = dropWhile is_space s"

text \<open>\<^verbatim>\<open>[AP]M\<close> under \<^verbatim>\<open>re.I\<close>.\<close>

definition am_pm_mark :: "string \<Rightarrow> string option" where
  "am_pm_mark s =
     (case s of
        a # m # rest \<Rightarrow>
          if (to_upper a = CHR ''A'' \<or> to_upper a = CHR ''P'') \<and> to_upper m = CHR ''M''
          then Some rest else None
      | _ \<Rightarrow> None)"

text \<open>One group \<^verbatim>\<open>\d{n}:\d{2}\s*[AP]M\<close> with a fixed number \<open>n\<close> of hour digits.\<close>

definition clock :: "nat \<Rightarrow> string \<Rightarrow> string option" where
  "clock n s =
     (case take_digits n s of
        None \<Rightarrow> None
      | Some r1 \<Rightarrow>
          (case expect (CHR '':'') r1 of
             None \<Rightarrow> None
           | Some r2 \<Rightarrow>
               (case take_digits 2 r2 of
                  None \<Rightarrow> None
                | Some r3 \<Rightarrow> am_pm_mark (skip_spaces r3))))"

text \<open>The text that a reader consumed, given the input and what it left.\<close>

definition consumed :: "string \<Rightarrow> string \<Rightarrow> string" where
  "consumed s rest = take (length s - length rest) s"

text \<open>The whole pattern at the start of \<open>s\<close>, with \<open>n1\<close> and \<open>n2\<close> hour digits: the two
  groups.\<close>

definition time_range_with :: "nat \<Rightarrow> nat \<Rightarrow> string \<Rightarrow> (string \<times> string) option" where
  "time_range_with n1 n2 s =
     (case clock n1 s of
        None \<Rightarrow> None
      | Some r1 \<Rightarrow>
          (case expect (CHR ''-'') (skip_spaces r1) of
             None \<Rightarrow> None
           | Some r2 \<Rightarrow>
               (let s2 = skip_spaces r2 in
                case clock n2 s2 of
                  None \<Rightarrow> None
                | Some r3 \<Rightarrow> Some (consumed s r1, consumed s2 r3))))"

fun first_some :: "'a option list \<Rightarrow> 'a option" where
  "first_some [] = None"
| "first_some (None # xs) = first_some xs"
| "first_some (Some x # xs) = Some x"

definition time_range_at :: "string \<Rightarrow> (string \<times> string) option" where
  "time_range_at s =
     first_some [time_range_with 2 2 s, time_range_with 2 1 s,
                 time_range_with 1 2 s, time_range_with 1 1 s]"

text \<open>\<^verbatim>\<open>re.search\<close>: the match at the leftmost position that has one.\<close>

fun time_search :: "string \<Rightarrow> (string \<times> string) option" where
  "time_search [] = None"
| "time_search (c # cs) =
     (case time_range_at (c # cs) of Some g \<Rightarrow> Some g | None \<Rightarrow> time_search cs)"

subsection \<open>\<^verbatim>\<open>datetime.strptime(s, '%I:%M %p')\<close>\<close>

text \<open>
  The library compiles the format to the case-insensitive pattern
  \<^verbatim>\<open>(1[0-2]|0[1-9]|[1-9]):([0-5]\d|\d)\s+(am|pm)\<close>, matches it at the start of the text
  and raises \<^verbatim>\<open>ValueError\<close> when it does not match or when text remains after the match.
  The readers return the value read and the text left; the alternatives of the hour and of
  the minute are tried in the pattern's order.
\<close>

definition digit_val :: "char \<Rightarrow> nat" where
  "digit_val c = of_char c - 48"

definition hour_alternatives :: "string \<Rightarrow> (nat \<times> string) option list" where
  "hour_alternatives s =
     [(case s of
         a # b # rest \<Rightarrow>
           if a = CHR ''1'' \<and> is_digit b \<and> digit_val b \<le> 2 then Some (10 + digit_val b, rest)
           else None
       | _ \<Rightarrow> None),
      (case s of
         a # b # rest \<Rightarrow>
           if a = CHR ''0'' \<and> is_digit b \<and> 1 \<le> digit_val b then Some (digit_val b, rest)
           else None
       | _ \<Rightarrow> None),
      (case s of
         a # rest \<Rightarrow> if is_digit a \<and> 1 \<le> digit_val a then Some (digit_val a, rest) else None
       | _ \<Rightarrow> None)]"

definition minute_alternatives :: "string \<Rightarrow> (nat \<times> string) option list" where
  "minute_alternatives s =
     [(case s of
         a # b # rest \<Rightarrow>
           if is_digit a \<and> digit_val a \<le> 5 \<and> is_digit b
           then Some (10 * digit_val a + digit_val b, rest) else None
       | _ \<Rightarrow> None),
      (case s of
         a # rest \<Rightarrow> if is_digit a then Some (digit_val a, rest) else None
       | _ \<Rightarrow> None)]"

text \<open>\<^verbatim>\<open>\s+(am|pm)\<close>: the flag is true for pm.\<close>

definition spaces_am_pm :: "string \<Rightarrow> (bool \<times> string) option" where
  "spaces_am_pm s =
     (case s of
        [] \<Rightarrow> None
      | c # _ \<Rightarrow>
          if \<not> is_space c then None
          else (case skip_spaces s of
                  a # m # rest \<Rightarrow>
                    if to_lower m \<noteq> CHR ''m'' then None
                    else if to_lower a = CHR ''a'' then Some (False, rest)
                    else if to_lower a = CHR ''p'' then Some (True, rest)
                    else None
                | _ \<Rightarrow> None))"

text \<open>What follows the hour: the colon, one alternative of the minute, and the mark.\<close>

definition after_hour :: "nat \<Rightarrow> string \<Rightarrow> (nat \<times> nat \<times> bool \<times> string) option" where
  "after_hour h s =
     (case expect (CHR '':'') s of
        None \<Rightarrow> None
      | Some r \<Rightarrow>
          first_some
            (map (\<lambda>alt. case alt of
                          None \<Rightarrow> None
                        | Some (m, r') \<Rightarrow>
                            (case spaces_am_pm r' of
                               None \<Rightarrow> None
                             | Some (pm, rest) \<Rightarrow> Some (h, m, pm, rest)))
                 (minute_alternatives r)))"

definition format_match :: "string \<Rightarrow> (nat \<times> nat \<times> bool \<times> string) option" where
  "format_match s =
     first_some
       (map (\<lambda>alt. case alt of None \<Rightarrow> None | Some (h, r) \<Rightarrow> after_hour h r)
            (hour_alternatives s))"

text \<open>The result is the pair of \<^verbatim>\<open>hour\<close> and \<^verbatim>\<open>minute\<close> of the datetime; \<open>None\<close> stands
  for \<^verbatim>\<open>ValueError\<close>.\<close>

definition strptime_I_M_p :: "string \<Rightarrow> (nat \<times> nat) option" where
  "strptime_I_M_p s =
     (case format_match s of
        None \<Rightarrow> None
      | Some (h, m, pm, rest) \<Rightarrow>
          if rest \<noteq> [] then None
          else if pm then Some (if h \<noteq> 12 then h + 12 else h, m)
          else Some (if h = 12 then 0 else h, m))"

subsection \<open>The parser\<close>

definition parse_class_time :: "string \<Rightarrow> time_data option" where
  "parse_class_time class_time_str =
     (if class_time_str = [] \<or> class_time_str = ''TBA'' then None
      else
        case days_match class_time_str of
          None \<Rightarrow> None
        | Some run \<Rightarrow>
            (let ds = filter (\<lambda>d. map_of DAY_MAP d \<noteq> None) (strip run) in
             if ds = [] then None
             else
               case time_search class_time_str of
                 None \<Rightarrow> None
               | Some (g1, g2) \<Rightarrow>
                   (let start_str = strip g1; end_str = strip g2 in
                    case strptime_I_M_p start_str of
                      None \<Rightarrow> None
                    | Some (h1, m1) \<Rightarrow>
                        (case strptime_I_M_p end_str of
                           None \<Rightarrow> None
                         | Some (h2, m2) \<Rightarrow>
                             (let start = int (h1 * 60 + m1); end = int (h2 * 60 + m2) in
                              Some \<lparr>days = ds,
                                    day_names = List.map_filter (map_of DAY_MAP) ds,
                                    start_time = start_str, end_time = end_str,
                                    start_minutes = start, end_minutes = end,
                                    duration_minutes = end - start\<rparr>)))))"

section \<open>Fetching the listings page (\<^verbatim>\<open>get_listings\<close>)\<close>

text \<open>
  What one call of \<^verbatim>\<open>self.scraper.get(url, timeout=15)\<close> gives: an exception of the HTTP
  client, or a response. Of the response the code reads the status, the reason and the
  text; \<open>page_title\<close> is the text of the \<^verbatim>\<open><title>\<close> element that the HTML parser finds in
  that text, if there is one.
\<close>

record response =
  status_code :: int
  reason :: string
  page_text :: string
  page_title :: "string option"

datatype fetch_outcome = Raised string | Returned response

text \<open>The exceptions of one attempt, by the \<^verbatim>\<open>raise\<close> that produces them.\<close>

datatype cause =
    RequestError string
  | HttpStatus int string
  | EmptyContent
  | CloudflareCheck
  | AccessDenied
  | ErrorPage string

text \<open>The exception of the last line: the number of attempts and \<^verbatim>\<open>last_error\<close>.\<close>

datatype fetch_error = FetchFailed int "cause option"

text \<open>What the loop does to the outside world, in order: the requests with their attempt
  index, and the calls of \<^verbatim>\<open>time.sleep\<close> with their argument.\<close>

datatype event = Get nat | Sleep nat

text \<open>The body of the \<^verbatim>\<open>try\<close> after the request: the checks in the source's order. The
  parsed page is returned as the response it was parsed from.\<close>

definition validate :: "response \<Rightarrow> cause + response" where
  "validate r =
     (if status_code r \<noteq> 200 then Inl (HttpStatus (status_code r) (reason r))
      else if page_text r = [] \<or> length (page_text r) < 100 then Inl EmptyContent
      else
        (let page_lower = lower (page_text r) in
         if contains page_lower ''cloudflare'' \<and> contains page_lower ''checking your browser''
         then Inl CloudflareCheck
         else if contains page_lower ''error'' \<and> contains page_lower ''403''
         then Inl AccessDenied
         else
           (case page_title r of
              None \<Rightarrow> Inr r
            | Some t \<Rightarrow> if contains (lower t) ''error'' then Inl (ErrorPage t) else Inr r)))"

definition try_fetch :: "fetch_outcome \<Rightarrow> cause + response" where
  "try_fetch out = (case out of Raised msg \<Rightarrow> Inl (RequestError msg) | Returned r \<Rightarrow> validate r)"

text \<open>
  The loop \<^verbatim>\<open>for attempt in range(self.max_retries)\<close>. The network is a function from the
  attempt index to the outcome of that request; \<open>log\<close> collects the events. The loop ends
  by returning the page, or falls through to the final \<^verbatim>\<open>raise\<close>.
\<close>

function attempt_loop ::
  "int \<Rightarrow> (nat \<Rightarrow> fetch_outcome) \<Rightarrow> nat \<Rightarrow> cause option \<Rightarrow> event list
     \<Rightarrow> (fetch_error + response) \<times> event list" where
  "attempt_loop max_retries net attempt last_error log =
     (if int attempt < max_retries then
        (case try_fetch (net attempt) of
           Inr soup \<Rightarrow> (Inr soup, log @ [Get attempt])
         | Inl e \<Rightarrow>
             attempt_loop max_retries net (Suc attempt) (Some e)
               (if int attempt < max_retries - 1
                then log @ [Get attempt, Sleep ((attempt + 1) * 2)]
                else log @ [Get attempt]))
      else (Inl (FetchFailed max_retries last_error), log))"
  by pat_completeness auto
termination
  by (relation "measure (\<lambda>(max_retries, net, attempt, last_error, log). nat (max_retries - int attempt))")
     auto

definition get_listings :: "int \<Rightarrow> (nat \<Rightarrow> fetch_outcome) \<Rightarrow> (fetch_error + response) \<times> event list" where
  "get_listings max_retries net = attempt_loop max_retries net 0 None []"

text \<open>The events of a run whose attempts before \<open>k\<close> fail and are retried, up to the request
  of attempt \<open>k\<close>: each failed attempt \<open>i\<close> is followed by a sleep of \<open>(i + 1) * 2\<close> seconds.\<close>

definition retries_from :: "nat \<Rightarrow> nat \<Rightarrow> event list" where
  "retries_from a k = concat (map (\<lambda>i. [Get i, Sleep ((i + 1) * 2)]) [a..<k]) @ [Get k]"

definition is_get :: "event \<Rightarrow> bool" where
  "is_get e = (case e of Get _ \<Rightarrow> True | Sleep _ \<Rightarrow> False)"

text \<open>A page that passes every check, and a network for the worked examples: the attempts
  before \<open>k\<close> time out, attempt \<open>k\<close> and the later ones return the page.\<close>

definition good_page :: response where
  "good_page = \<lparr>status_code = 200, reason = ''OK'', page_text = replicate 100 (CHR ''x''),
                 page_title = Some ''Schedule''\<rparr>"

definition fails_before :: "nat \<Rightarrow> nat \<Rightarrow> fetch_outcome" where
  "fails_before k i = (if i < k then Raised ''timeout'' else Returned good_page)"

section \<open>Row extraction (\<^verbatim>\<open>_extract_course_from_row\<close>)\<close>

subsection \<open>Patterns\<close>

text \<open>
  The name patterns are matched with backtracking. A matcher maps a text to the texts
  that can remain after it, in the order in which Python's matcher tries them: a greedy
  repetition offers the longest run first, an optional part is tried before it is
  skipped.
\<close>

type_synonym matcher = "string \<Rightarrow> string list"

definition one :: "(char \<Rightarrow> bool) \<Rightarrow> matcher" where
  "one p s = (case s of [] \<Rightarrow> [] | c # rest \<Rightarrow> if p c then [rest] else [])"

definition lit :: "char \<Rightarrow> matcher" where
  "lit c = one (\<lambda>x. x = c)"

definition many1 :: "(char \<Rightarrow> bool) \<Rightarrow> matcher" where
  "many1 p s = map (\<lambda>k. drop k s) (rev [1..<Suc (length (takeWhile p s))])"

definition seq :: "matcher \<Rightarrow> matcher \<Rightarrow> matcher" where
  "seq a b s = concat (map b (a s))"

definition opt :: "matcher \<Rightarrow> matcher" where
  "opt a s = a s @ [s]"

text \<open>\<^verbatim>\<open>pattern.match(s)\<close> for a pattern that ends with \<^verbatim>\<open>$\<close>: some way of matching leaves
  nothing, or only a final newline.\<close>

definition matches_to_end :: "matcher \<Rightarrow> string \<Rightarrow> bool" where
  "matches_to_end m s = list_ex (\<lambda>r. r = [] \<or> r = [CHR 0x0A]) (m s)"

text \<open>\<^verbatim>\<open>[A-Z][a-z]+\<close>\<close>

definition cap_word :: matcher where
  "cap_word = seq (one is_upper) (many1 is_lower)"

text \<open>\<^verbatim>\<open>^([A-Z][a-z]+(?:-[A-Z][a-z]+)?),\s+([A-Z][a-z]+(?:\s+[A-Z][a-z]+)?)$\<close>\<close>

definition NAME_PATTERN_LAST_FIRST :: matcher where
  "NAME_PATTERN_LAST_FIRST =
     seq cap_word (seq (opt (seq (lit (CHR ''-'')) cap_word))
       (seq (lit (CHR '','')) (seq (many1 is_space)
         (seq cap_word (opt (seq (many1 is_space) cap_word))))))"

text \<open>\<^verbatim>\<open>^([A-Z][a-z]+\s+[A-Z][a-z]+)$\<close>\<close>

definition NAME_PATTERN_FIRST_LAST :: matcher where
  "NAME_PATTERN_FIRST_LAST = seq cap_word (seq (many1 is_space) cap_word)"

text \<open>\<^verbatim>\<open>^([A-Z][a-z]+\s+[A-Z]\.\s+[A-Z][a-z]+)$\<close>\<close>

definition NAME_PATTERN_FIRST_M_LAST :: matcher where
  "NAME_PATTERN_FIRST_M_LAST =
     seq cap_word (seq (many1 is_space) (seq (one is_upper) (seq (lit (CHR ''.''))
       (seq (many1 is_space) cap_word))))"

text \<open>
  \<^verbatim>\<open>CRN_PATTERN.search(text)\<close> with \<^verbatim>\<open>\b(\d{5})\b\<close>: the leftmost five digits that have no
  word character directly before or after them. The flag tells whether the character
  before the current position is a word character.
\<close>

fun crn_from :: "bool \<Rightarrow> string \<Rightarrow> string option" where
  "crn_from prev_word [] = None"
| "crn_from prev_word (c # cs) =
     (if \<not> prev_word \<and> 5 \<le> length (c # cs) \<and> list_all is_digit (take 5 (c # cs))
         \<and> (case drop 5 (c # cs) of [] \<Rightarrow> True | d # _ \<Rightarrow> \<not> is_word d)
      then Some (take 5 (c # cs))
      else crn_from (is_word c) cs)"

definition crn_search :: "string \<Rightarrow> string option" where
  "crn_search s = crn_from False s"

definition EXCLUDE_TERMS :: "string list" where
  "EXCLUDE_TERMS =
     [''view'', ''footnote'', ''math'', ''calculus'', ''class'', ''meets'', ''campus'',
      ''online'', ''hybrid'', ''tba'', ''tbd'', ''am'', ''pm'', ''open'', ''wl'']"

subsection \<open>The row\<close>

text \<open>
  Of a cell the code reads its stripped text, the stripped text of its first
  \<^verbatim>\<open>span\<close> of class \<^verbatim>\<open>days\<close> and the stripped text of its first link to
  \<^verbatim>\<open>/directory/user\<close>, each absent when the HTML parser finds no such element. Of the row
  it reads the cells and whether a \<^verbatim>\<open>span\<close> with a hybrid marker class exists.
\<close>

record cell =
  cell_text :: string
  days_span :: "string option"
  prof_link :: "string option"

record row =
  cells :: "cell list"
  hybrid_span :: bool

text \<open>The variables of the single pass; \<open>None\<close> is Python's \<^verbatim>\<open>None\<close>.\<close>

record found =
  f_crn :: "string option"
  f_professor :: "string option"
  f_days :: "string option"
  f_time_str :: "string option"

text \<open>\<^verbatim>\<open>' '.join(days)\<close> on a string: its characters, separated by spaces.\<close>

fun join_chars :: "string \<Rightarrow> string" where
  "join_chars [] = []"
| "join_chars [c] = [c]"
| "join_chars (c # d # rest) = c # CHR '' '' # join_chars (d # rest)"

definition find_crn :: "string option \<Rightarrow> string \<Rightarrow> string option" where
  "find_crn crn_v txt =
     (if \<not> truthy crn_v then
        (case crn_search txt of None \<Rightarrow> crn_v | Some g \<Rightarrow> Some g)
      else crn_v)"

definition find_days :: "string option \<Rightarrow> cell \<Rightarrow> string option" where
  "find_days days_v c =
     (if \<not> truthy days_v then
        (case days_span c of
           None \<Rightarrow> days_v
         | Some span_text \<Rightarrow>
             (let days_text = replace_char (CHR 0xB7) [] span_text in
              if days_text \<noteq> [] then
                (let ds = filter (\<lambda>letter. letter \<in> set ''MTWRFSU'') days_text
                 in if length ds > 1 then Some (join_chars ds) else Some ds)
              else days_v))
      else days_v)"

definition find_time :: "string option \<Rightarrow> string \<Rightarrow> string option" where
  "find_time time_v txt =
     (if \<not> truthy time_v then
        (if time_search txt \<noteq> None then Some (strip txt)
         else if contains (upper txt) ''TBA'' then Some ''TBA''
         else time_v)
      else time_v)"

definition looks_like_name :: "string \<Rightarrow> bool" where
  "looks_like_name txt =
     (if matches_to_end NAME_PATTERN_LAST_FIRST txt \<or>
         matches_to_end NAME_PATTERN_FIRST_LAST txt \<or>
         matches_to_end NAME_PATTERN_FIRST_M_LAST txt
      then True
      else if 2 \<le> length (split txt) \<and> length (split txt) \<le> 4 then
        (let ws = split txt in
         if list_all (\<lambda>w. w \<noteq> [] \<and> is_upper (hd w)) ws then
           (let text_lower = lower txt in
            \<not> list_ex (\<lambda>term. contains text_lower term) EXCLUDE_TERMS
            \<and> \<not> list_ex is_digit txt)
         else False)
      else False)"

definition find_professor :: "string option \<Rightarrow> string option \<Rightarrow> string \<Rightarrow> cell \<Rightarrow> string option" where
  "find_professor prof_v crn_v course_code c =
     (if \<not> truthy prof_v then
        (case prof_link c of
           Some link_text \<Rightarrow> Some link_text
         | None \<Rightarrow>
             (let txt = cell_text c in
              if txt \<noteq> [] \<and> truthy crn_v \<and> \<not> contains txt (or_default crn_v [])
                 \<and> \<not> contains (upper txt) (upper course_code)
              then (if looks_like_name txt then Some txt else prof_v)
              else prof_v))
      else prof_v)"

text \<open>One iteration of \<^verbatim>\<open>for i, cell in enumerate(cells)\<close>; the professor test reads the
  CRN as updated in the same iteration.\<close>

definition scan_cell :: "string \<Rightarrow> found \<Rightarrow> cell \<Rightarrow> found" where
  "scan_cell course_code st c =
     (let crn_v = find_crn (f_crn st) (cell_text c) in
      \<lparr>f_crn = crn_v,
       f_professor = find_professor (f_professor st) crn_v course_code c,
       f_days = find_days (f_days st) c,
       f_time_str = find_time (f_time_str st) (cell_text c)\<rparr>)"

definition scan_cells :: "string \<Rightarrow> cell list \<Rightarrow> found" where
  "scan_cells course_code cs =
     foldl (scan_cell course_code)
       \<lparr>f_crn = None, f_professor = None, f_days = None, f_time_str = None\<rparr> cs"

text \<open>\<^verbatim>\<open>class_time\<close> after the loop.\<close>

definition combine_time :: "found \<Rightarrow> string option" where
  "combine_time st =
     (if truthy (f_time_str st) then
        (if truthy (f_days st)
         then Some (or_default (f_days st) [] @ '' '' @ or_default (f_time_str st) [])
         else f_time_str st)
      else None)"

text \<open>\<^verbatim>\<open>' '.join(cell_texts)\<close>\<close>

fun join_space :: "string list \<Rightarrow> string" where
  "join_space [] = []"
| "join_space [s] = s"
| "join_space (s # t # rest) = s @ '' '' @ join_space (t # rest)"

definition detect_format :: "row \<Rightarrow> string option" where
  "detect_format r =
     (let row_text_lower = lower (join_space (map cell_text (cells r))) in
      if hybrid_span r \<or> contains row_text_lower ''hybrid'' then Some ''Hybrid''
      else if contains row_text_lower ''fully online'' \<or>
              (contains row_text_lower ''online class'' \<and> \<not> contains row_text_lower ''hybrid'')
      then Some ''Online''
      else if contains row_text_lower ''fully on-campus'' \<or> contains row_text_lower ''on-campus''
      then Some ''In-Person''
      else if contains row_text_lower ''online'' \<and> \<not> contains row_text_lower ''hybrid''
      then Some ''Online''
      else None)"

definition extract_course_from_row :: "row \<Rightarrow> string \<Rightarrow> course_info option" where
  "extract_course_from_row r course_code =
     (let st = scan_cells course_code (cells r);
          class_time_v = combine_time st;
          is_online = detect_format r
      in if truthy (f_crn st) then
           Some \<lparr>course = course_code,
                 crn = or_default (f_crn st) [],
                 professor = or_default (f_professor st) ''TBA'',
                 class_time = or_default class_time_v ''TBA'',
                 format = or_default is_online ''Unknown''\<rparr>
         else None)"

text \<open>Cells for the worked examples.\<close>

definition plain_cell :: "string \<Rightarrow> cell" where
  "plain_cell t = \<lparr>cell_text = t, days_span = None, prof_link = None\<rparr>"

section \<open>Rating extraction (\<^verbatim>\<open>get_professor_ratings\<close>)\<close>

text \<open>
  The part of \<^verbatim>\<open>get_professor_ratings\<close> that follows the choice of the matching card.
  Of the card and of the page the code reads the texts of the elements that the HTML
  parser finds for its queries; each is absent when no such element exists.
\<close>

record teacher_card =
  tag_name :: string
  href :: "string option"
  rating_number :: "string option"
  rating_count :: "string option"
  feedback_items :: "(string \<times> string option) list"
  feedback_numbers :: "(string option \<times> string) list"

text \<open>
  \<open>feedback_items\<close>: for each \<^verbatim>\<open>CardFeedback__CardFeedbackItem\<close> element its text and the
  stripped text of the \<^verbatim>\<open>CardFeedback__CardFeedbackNumber\<close> element inside it, if any.
  \<open>feedback_numbers\<close>: for each \<^verbatim>\<open>CardFeedback__CardFeedbackNumber\<close> element the text of
  its parent, if it has one, and its own stripped text.
\<close>

record ratings_page =
  rating_numerator :: "string option"
  ratings_link :: "string option"
  page_feedback_items :: "(string \<times> string option) list"
  page_feedback_numbers :: "string list"

text \<open>The dictionary returned; the numeric type \<open>'f\<close> stands for Python's \<^verbatim>\<open>float\<close>.\<close>

record 'f ratings =
  rating :: "'f option"
  num_ratings :: "nat option"
  difficulty :: "'f option"
  url :: "string option"

text \<open>\<^verbatim>\<open>s.startswith(p)\<close>\<close>

definition startswith :: "string \<Rightarrow> string \<Rightarrow> bool" where
  "startswith s p = (take (length p) s = p)"

definition professor_url :: "teacher_card \<Rightarrow> string option" where
  "professor_url tcard =
     (if tag_name tcard = ''a'' \<and> truthy (href tcard) then
        (let h = or_default (href tcard) [] in
         if startswith h ''/professor/'' then Some (''https://www.ratemyprofessors.com'' @ h)
         else if startswith h ''http'' then Some h
         else None)
      else None)"

text \<open>\<^verbatim>\<open>int(re.search(r'(\d+)', s).group(1))\<close>: the value of the first run of digits, absent
  when the text has no digit.\<close>

definition first_number :: "string \<Rightarrow> nat option" where
  "first_number s =
     (let digits = takeWhile is_digit (dropWhile (\<lambda>c. \<not> is_digit c) s)
      in if digits = [] then None
         else Some (foldl (\<lambda>n c. 10 * n + (of_char c - 48)) 0 digits))"

text \<open>
  Python's \<^verbatim>\<open>float(s)\<close> is a parameter \<open>to_float\<close>: \<open>None\<close> stands for \<^verbatim>\<open>ValueError\<close>.
  The loop over labelled feedback items: the first item whose text mentions difficulty and
  whose number converts gives the value; an item whose number does not convert is passed
  over.
\<close>

fun labelled_difficulty :: "(string \<Rightarrow> 'f option) \<Rightarrow> (string \<times> string option) list \<Rightarrow> 'f option" where
  "labelled_difficulty to_float [] = None"
| "labelled_difficulty to_float ((item_text, number) # items) =
     (if contains (lower item_text) ''difficulty'' then
        (case number of
           None \<Rightarrow> labelled_difficulty to_float items
         | Some difficulty_text \<Rightarrow>
             (case to_float difficulty_text of
                Some v \<Rightarrow> Some v
              | None \<Rightarrow> labelled_difficulty to_float items))
      else labelled_difficulty to_float items)"

text \<open>The loop over all feedback numbers of the card, looking at the parent's text.\<close>

fun parent_difficulty :: "(string \<Rightarrow> 'f option) \<Rightarrow> (string option \<times> string) list \<Rightarrow> 'f option" where
  "parent_difficulty to_float [] = None"
| "parent_difficulty to_float ((parent, number_text) # elems) =
     (case parent of
        None \<Rightarrow> parent_difficulty to_float elems
      | Some parent_text \<Rightarrow>
          if contains (lower parent_text) ''difficulty'' then
            (case to_float number_text of
               Some v \<Rightarrow> Some v
             | None \<Rightarrow> parent_difficulty to_float elems)
          else parent_difficulty to_float elems)"

text \<open>The values of \<^verbatim>\<open>rating\<close>, \<^verbatim>\<open>num_ratings\<close> and \<^verbatim>\<open>difficulty\<close> after the card has been
  read.\<close>

definition card_rating :: "(string \<Rightarrow> 'f option) \<Rightarrow> teacher_card \<Rightarrow> 'f option" where
  "card_rating to_float tcard =
     (case rating_number tcard of None \<Rightarrow> None | Some rating_text \<Rightarrow> to_float rating_text)"

definition card_num_ratings :: "teacher_card \<Rightarrow> nat option" where
  "card_num_ratings tcard =
     (case rating_count tcard of None \<Rightarrow> None | Some count_text \<Rightarrow> first_number count_text)"

definition card_difficulty :: "(string \<Rightarrow> 'f option) \<Rightarrow> teacher_card \<Rightarrow> 'f option" where
  "card_difficulty to_float tcard =
     (case labelled_difficulty to_float (feedback_items tcard) of
        Some v \<Rightarrow> Some v
      | None \<Rightarrow>
          if length (feedback_numbers tcard) \<ge> 2
          then parent_difficulty to_float (feedback_numbers tcard)
          else None)"

text \<open>The values after the fall-back to the profile-page layout, which is read only for
  a value that is still \<^verbatim>\<open>None\<close>.\<close>

definition final_rating :: "(string \<Rightarrow> 'f option) \<Rightarrow> teacher_card \<Rightarrow> ratings_page \<Rightarrow> 'f option" where
  "final_rating to_float tcard page =
     (case card_rating to_float tcard of
        Some v \<Rightarrow> Some v
      | None \<Rightarrow>
          (case rating_numerator page of None \<Rightarrow> None | Some rating_text \<Rightarrow> to_float rating_text))"

definition final_num_ratings :: "teacher_card \<Rightarrow> ratings_page \<Rightarrow> nat option" where
  "final_num_ratings tcard page =
     (case card_num_ratings tcard of
        Some n \<Rightarrow> Some n
      | None \<Rightarrow>
          (case ratings_link page of None \<Rightarrow> None | Some ratings_text \<Rightarrow> first_number ratings_text))"

definition final_difficulty :: "(string \<Rightarrow> 'f option) \<Rightarrow> teacher_card \<Rightarrow> ratings_page \<Rightarrow> 'f option" where
  "final_difficulty to_float tcard page =
     (case card_difficulty to_float tcard of
        Some v \<Rightarrow> Some v
      | None \<Rightarrow>
          (case labelled_difficulty to_float (page_feedback_items page) of
             Some v \<Rightarrow> Some v
           | None \<Rightarrow>
               (case page_feedback_numbers page of
                  _ # second # _ \<Rightarrow> to_float second
                | _ \<Rightarrow> None)))"

text \<open>The final test and the returned dictionary.\<close>

definition extract_ratings ::
  "(string \<Rightarrow> 'f option) \<Rightarrow> teacher_card \<Rightarrow> ratings_page \<Rightarrow> 'f ratings option" where
  "extract_ratings to_float tcard page =
     (let professor_url_v = professor_url tcard;
          rating_v = final_rating to_float tcard page;
          num_ratings_v = final_num_ratings tcard page;
          difficulty_v = final_difficulty to_float tcard page
      in if rating_v \<noteq> None \<or> num_ratings_v \<noteq> None \<or> difficulty_v \<noteq> None
         then Some \<lparr>rating = rating_v, num_ratings = num_ratings_v,
                    difficulty = difficulty_v, url = professor_url_v\<rparr>
         else None)"

text \<open>For the worked examples: a card that carries only a link, a card that also shows a
  review count, a page with none of the profile-page elements, and a number reader that
  accepts no text.\<close>

definition link_only_card :: teacher_card where
  "link_only_card =
     \<lparr>tag_name = ''a'', href = Some ''/professor/123'', rating_number = None,
      rating_count = None, feedback_items = [], feedback_numbers = []\<rparr>"

definition count_only_card :: teacher_card where
  "count_only_card =
     \<lparr>tag_name = ''a'', href = Some ''/professor/123'', rating_number = None,
      rating_count = Some ''65 ratings'', feedback_items = [], feedback_numbers = []\<rparr>"

definition empty_page :: ratings_page where
  "empty_page =
     \<lparr>rating_numerator = None, ratings_link = None, page_feedback_items = [],
      page_feedback_numbers = []\<rparr>"

definition no_float :: "string \<Rightarrow> int option" where
  "no_float s = None"

section \<open>Verification: conflict detection\<close>

lemma inner_loop_eq:
  "s_time_data c1 = Some t1 \<Longrightarrow>
     inner_loop so c1 t1 xs acc = acc @ List.map_filter (conflict_of so c1) xs"
  by (induction xs arbitrary: acc) (auto simp: conflict_of_def List.map_filter_simps split: option.splits)

lemma conflict_of_None: "s_time_data c1 = None \<Longrightarrow> List.map_filter (conflict_of so c1) xs = []"
  by (induction xs) (auto simp: conflict_of_def List.map_filter_simps)

lemma outer_loop_eq: "outer_loop so xs acc = acc @ all_conflicts so xs"
  by (induction xs arbitrary: acc) (auto simp: inner_loop_eq conflict_of_None split: option.splits)

lemma index_pairs_Suc:
  "index_pairs (Suc n) = map (Pair 0) [1..<Suc n] @ map (\<lambda>(i, j). (Suc i, Suc j)) (index_pairs n)"
proof -
  have a: "[0..<Suc n] = 0 # map Suc [0..<n]"
    by (simp add: upt_conv_Cons map_Suc_upt del: upt_Suc)
  have b: "\<And>i. [Suc (Suc i)..<Suc n] = map Suc [Suc i..<n]"
    by (simp add: map_Suc_upt)
  show ?thesis
    unfolding index_pairs_def a
    by (simp add: b map_concat comp_def del: upt_Suc)
qed

lemma map_filter_map: "List.map_filter f (map g xs) = List.map_filter (f \<circ> g) xs"
  by (induction xs) (simp_all add: List.map_filter_simps split: option.splits)

lemma map_filter_append: "List.map_filter f (xs @ ys) = List.map_filter f xs @ List.map_filter f ys"
  by (simp add: List.map_filter_def)

lemma map_map_filter: "map g (List.map_filter f xs) = List.map_filter (map_option g \<circ> f) xs"
  by (induction xs) (simp_all add: List.map_filter_simps split: option.splits)

lemma map_filter_agree:
  "(\<And>x. x \<in> set xs \<Longrightarrow> f x = g x) \<Longrightarrow> List.map_filter f xs = List.map_filter g xs"
  by (induction xs) (simp_all add: List.map_filter_simps split: option.splits)

lemma nth_tail_upt: "map (\<lambda>j. (c # cs) ! j) [1..<Suc (length cs)] = cs"
proof -
  have "[1..<Suc (length cs)] = map Suc [0..<length cs]"
    by (simp add: map_Suc_upt)
  then show ?thesis by (simp add: comp_def map_nth del: upt_Suc)
qed

lemma all_conflicts_pairs:
  "all_conflicts so cs =
     List.map_filter (\<lambda>(i, j). conflict_of so (cs ! i) (cs ! j)) (index_pairs (length cs))"
proof (induction cs)
  case Nil
  show ?case by (simp add: index_pairs_def List.map_filter_simps)
next
  case (Cons c cs)
  have "List.map_filter (conflict_of so c) cs
      = List.map_filter (conflict_of so c) (map (\<lambda>j. (c # cs) ! j) [1..<Suc (length cs)])"
    by (simp only: nth_tail_upt)
  also have "\<dots> = List.map_filter (\<lambda>(i, j). conflict_of so ((c # cs) ! i) ((c # cs) ! j))
                     (map (Pair 0) [1..<Suc (length cs)])"
    by (simp add: map_filter_map comp_def del: upt_Suc)
  finally have h: "List.map_filter (conflict_of so c) cs
      = List.map_filter (\<lambda>(i, j). conflict_of so ((c # cs) ! i) ((c # cs) ! j))
                     (map (Pair 0) [1..<Suc (length cs)])" .
  have t: "all_conflicts so cs =
             List.map_filter (\<lambda>(i, j). conflict_of so ((c # cs) ! i) ((c # cs) ! j))
               (map (\<lambda>(i, j). (Suc i, Suc j)) (index_pairs (length cs)))"
    by (simp add: Cons.IH map_filter_map comp_def case_prod_unfold)
  have "all_conflicts so (c # cs) = List.map_filter (conflict_of so c) cs @ all_conflicts so cs"
    by simp
  also have "\<dots> = List.map_filter (\<lambda>(i, j). conflict_of so ((c # cs) ! i) ((c # cs) ! j))
       (map (Pair 0) [1..<Suc (length cs)] @ map (\<lambda>(i, j). (Suc i, Suc j)) (index_pairs (length cs)))"
    by (simp only: map_filter_append h t)
  also have "\<dots> = List.map_filter (\<lambda>(i, j). conflict_of so ((c # cs) ! i) ((c # cs) ! j))
       (index_pairs (length (c # cs)))"
    by (simp only: index_pairs_Suc length_Cons)
  finally show ?case .
qed

lemma detect_conflicts_pairs:
  "detect_conflicts so cs =
     List.map_filter (\<lambda>(i, j). conflict_of so (cs ! i) (cs ! j)) (index_pairs (length cs))"
  by (simp add: detect_conflicts_def outer_loop_eq all_conflicts_pairs)

lemma sorted_index_pairs: "sorted_wrt pair_before (index_pairs n)"
proof (induction n)
  case 0
  show ?case by (simp add: index_pairs_def)
next
  case (Suc n)
  have a: "sorted_wrt pair_before (map (Pair 0) [1..<Suc n])"
    by (simp add: sorted_wrt_map pair_before_def del: upt_Suc)
  have b: "sorted_wrt pair_before (map (\<lambda>(i, j). (Suc i, Suc j)) (index_pairs n))"
    unfolding sorted_wrt_map
    by (rule sorted_wrt_mono_rel [OF _ Suc.IH]) (auto simp: pair_before_def)
  show ?case
    unfolding index_pairs_Suc sorted_wrt_append
    using a b by (auto simp: pair_before_def)
qed

lemma in_index_pairs: "(i, j) \<in> set (index_pairs n) \<longleftrightarrow> i < j \<and> j < n"
proof -
  have "(i, j) \<in> set (index_pairs n) \<longleftrightarrow> (\<exists>k\<in>{0..<n}. (i, j) \<in> Pair k ` {Suc k..<n})"
    unfolding index_pairs_def by simp
  also have "\<dots> \<longleftrightarrow> (\<exists>k\<in>{0..<n}. k = i \<and> j \<in> {Suc k..<n})"
    by (simp only: image_iff Pair_inject bex_simps) blast
  also have "\<dots> \<longleftrightarrow> (i < n \<and> Suc i \<le> j \<and> j < n)"
    by auto
  also have "\<dots> \<longleftrightarrow> i < j \<and> j < n" by arith
  finally show ?thesis .
qed

lemma map_Some_map_filter:
  "map Some (List.map_filter f xs) = map f (filter (\<lambda>x. f x \<noteq> None) xs)"
  by (induction xs) (auto simp: List.map_filter_simps split: option.splits)

lemma conflict_of_iff:
  "conflict_of so c1 c2 \<noteq> None \<longleftrightarrow>
     (\<exists>t1 t2. s_time_data c1 = Some t1 \<and> s_time_data c2 = Some t2 \<and>
        set (days t1) \<inter> set (days t2) \<noteq> {} \<and>
        start_minutes t1 < end_minutes t2 \<and> end_minutes t1 > start_minutes t2)"
  by (auto simp: conflict_of_def split: option.splits)

lemma conflict_of_overlapping: "conflict_of so c1 c2 \<noteq> None \<longleftrightarrow> overlapping c1 c2"
  by (auto simp: conflict_of_def overlapping_def split: option.splits)

lemma conflict_of_Some_overlapping: "(\<exists>y. conflict_of so c1 c2 = Some y) \<longleftrightarrow> overlapping c1 c2"
  using conflict_of_overlapping [of so c1 c2] by auto

lemma conflict_of_content:
  assumes "lists_shared_days so" and "lists_shared_days so'"
  shows "map_option content (conflict_of so c1 c2) = map_option content (conflict_of so' c1 c2)"
proof -
  have "set (so d1 d2) = set (so' d1 d2)" for d1 d2
    using assms by (simp add: lists_shared_days_def)
  then show ?thesis
    by (auto simp: conflict_of_def conflict_record_def content_def split: option.splits)
qed

lemma conflict_of_same_order:
  assumes "same_day_order so so' cs" and "c1 \<in> set cs" and "c2 \<in> set cs"
  shows "conflict_of so c1 c2 = conflict_of so' c1 c2"
proof (cases "s_time_data c1")
  case None
  then show ?thesis by (simp add: conflict_of_def)
next
  case t1: (Some t1)
  show ?thesis
  proof (cases "s_time_data c2")
    case None
    then show ?thesis by (simp add: conflict_of_def t1)
  next
    case t2: (Some t2)
    from assms have "so (days t1) (days t2) = so' (days t1) (days t2)"
      unfolding same_day_order_def list_all_iff using t1 t2 by fastforce
    then show ?thesis by (simp add: conflict_of_def conflict_record_def t1 t2)
  qed
qed

lemma detect_conflicts_content:
  assumes "lists_shared_days so" and "lists_shared_days so'"
  shows "map content (detect_conflicts so cs) = map content (detect_conflicts so' cs)"
  unfolding detect_conflicts_pairs map_map_filter
  by (rule map_filter_agree) (auto simp: conflict_of_content [OF assms])

lemma detect_conflicts_same_order:
  assumes "same_day_order so so' cs"
  shows "detect_conflicts so cs = detect_conflicts so' cs"
  unfolding detect_conflicts_pairs
proof (rule map_filter_agree)
  fix p assume p: "p \<in> set (index_pairs (length cs))"
  obtain i j where ij: "p = (i, j)" by (cases p)
  with p have "i < length cs" and "j < length cs"
    using in_index_pairs [of i j "length cs"] by auto
  then have "cs ! i \<in> set cs" and "cs ! j \<in> set cs" by simp_all
  then show "(case p of (i, j) \<Rightarrow> conflict_of so (cs ! i) (cs ! j)) =
             (case p of (i, j) \<Rightarrow> conflict_of so' (cs ! i) (cs ! j))"
    using conflict_of_same_order [OF assms] by (simp add: ij)
qed

lemma days_in_order_law: "lists_shared_days days_in_order"
  by (auto simp: lists_shared_days_def days_in_order_def)

lemma days_in_reverse_law: "lists_shared_days days_in_reverse"
  by (auto simp: lists_shared_days_def days_in_reverse_def days_in_order_def)

lemma example_overlap:
  "detect_conflicts so [mk_course ''11111'' (Some (mk_time ''MW'' 510 645)),
                        mk_course ''22222'' (Some (mk_time ''MW'' 630 700))]
   = [\<lparr>course1 = \<lparr>r_crn = Some ''11111'', r_course = None, r_professor = None\<rparr>,
       course2 = \<lparr>r_crn = Some ''22222'', r_course = None, r_professor = None\<rparr>,
       conflicting_days = so ''MW'' ''MW'', time1 = ''s - e'', time2 = ''s - e''\<rparr>]"
  by (simp add: detect_conflicts_def mk_course_def mk_time_def conflict_record_def ref_of_def time_range_def)

lemma example_overlap_days:
  "map conflicting_days
     (detect_conflicts days_in_order [mk_course ''11111'' (Some (mk_time ''MW'' 510 645)),
                                      mk_course ''22222'' (Some (mk_time ''MW'' 630 700))])
   = [''MW'']"
  "map conflicting_days
     (detect_conflicts days_in_reverse [mk_course ''11111'' (Some (mk_time ''MW'' 510 645)),
                                        mk_course ''22222'' (Some (mk_time ''MW'' 630 700))])
   = [''WM'']"
  by (simp_all add: example_overlap days_in_order_def days_in_reverse_def)

lemma example_overlap_content:
  "map content
     (detect_conflicts days_in_order [mk_course ''11111'' (Some (mk_time ''MW'' 510 645)),
                                      mk_course ''22222'' (Some (mk_time ''MW'' 630 700))])
   = [(\<lparr>r_crn = Some ''11111'', r_course = None, r_professor = None\<rparr>,
       \<lparr>r_crn = Some ''22222'', r_course = None, r_professor = None\<rparr>,
       {CHR ''M'', CHR ''W''}, ''s - e'', ''s - e'')]"
  by (simp add: example_overlap content_def days_in_order_def)

lemma example_disjoint_days:
  "detect_conflicts so [mk_course ''11111'' (Some (mk_time ''MW'' 510 645)),
                        mk_course ''22222'' (Some (mk_time ''TF'' 630 700))] = []"
  by (simp add: detect_conflicts_def mk_course_def mk_time_def)

lemma example_back_to_back:
  "detect_conflicts so [mk_course ''11111'' (Some (mk_time ''M'' 510 600)),
                        mk_course ''22222'' (Some (mk_time ''M'' 600 690))] = []
 \<and> detect_conflicts so [mk_course ''22222'' (Some (mk_time ''M'' 600 690)),
                        mk_course ''11111'' (Some (mk_time ''M'' 510 600))] = []"
  by (simp add: detect_conflicts_def mk_course_def mk_time_def)

lemma example_no_interval:
  "detect_conflicts so [mk_course ''11111'' (Some (mk_time ''MW'' 510 645)),
                        mk_course ''33333'' None,
                        mk_course ''22222'' (Some (mk_time ''MW'' 630 700))]
   = detect_conflicts so [mk_course ''11111'' (Some (mk_time ''MW'' 510 645)),
                          mk_course ''22222'' (Some (mk_time ''MW'' 630 700))]"
  by (simp add: detect_conflicts_def mk_course_def mk_time_def conflict_record_def ref_of_def time_range_def)

lemma example_order:
  "map (\<lambda>c. (r_crn (course1 c), r_crn (course2 c)))
     (detect_conflicts so [mk_course ''A'' (Some (mk_time ''M'' 500 600)),
                           mk_course ''B'' (Some (mk_time ''M'' 510 610)),
                           mk_course ''C'' (Some (mk_time ''M'' 520 620))])
   = [(Some ''A'', Some ''B''), (Some ''A'', Some ''C''), (Some ''B'', Some ''C'')]"
  by (simp add: detect_conflicts_def mk_course_def mk_time_def conflict_record_def ref_of_def time_range_def)

lemma example_single_day_order:
  "same_day_order days_in_order days_in_reverse
     [mk_course ''A'' (Some (mk_time ''M'' 500 600)), mk_course ''B'' (Some (mk_time ''M'' 510 610))]"
  by (simp add: same_day_order_def mk_course_def mk_time_def days_in_order_def days_in_reverse_def)

text \<open>
  Claim C1. For every section list, and whatever the iteration order of the sets, the
  detector's output is obtained by running through the index pairs \<open>i < j\<close> and emitting a
  Conflict for a pair exactly when both sections carry a parsed interval, their day-letter
  sets intersect, and \<open>start_i < end_j\<close> and \<open>end_i > start_j\<close>; a section without an
  interval yields no Conflict with any other section. On the specification's examples:
  days \<open>{M, W}\<close> with \<open>[510, 645)\<close> and \<open>[630, 700)\<close> conflict, on the days M and W;
  \<open>{M, W}\<close> against \<open>{T, F}\<close> does not; back-to-back \<open>[510, 600)\<close> and \<open>[600, 690)\<close> do not
  (in either order); and a section lacking an interval between two others changes nothing.
\<close>

theorem detect_conflicts_emits_iff_overlap:
  "detect_conflicts so cs =
     List.map_filter (\<lambda>(i, j). conflict_of so (cs ! i) (cs ! j)) (index_pairs (length cs))
   \<and> set (index_pairs (length cs)) = {(i, j). i < j \<and> j < length cs}
   \<and> (conflict_of so c1 c2 \<noteq> None \<longleftrightarrow>
        (\<exists>t1 t2. s_time_data c1 = Some t1 \<and> s_time_data c2 = Some t2 \<and>
           set (days t1) \<inter> set (days t2) \<noteq> {} \<and>
           start_minutes t1 < end_minutes t2 \<and> end_minutes t1 > start_minutes t2))
   \<and> detect_conflicts so [mk_course ''11111'' (Some (mk_time ''MW'' 510 645)),
                          mk_course ''22222'' (Some (mk_time ''MW'' 630 700))]
       = [\<lparr>course1 = \<lparr>r_crn = Some ''11111'', r_course = None, r_professor = None\<rparr>,
           course2 = \<lparr>r_crn = Some ''22222'', r_course = None, r_professor = None\<rparr>,
           conflicting_days = so ''MW'' ''MW'', time1 = ''s - e'', time2 = ''s - e''\<rparr>]
   \<and> map content
         (detect_conflicts days_in_order [mk_course ''11111'' (Some (mk_time ''MW'' 510 645)),
                                          mk_course ''22222'' (Some (mk_time ''MW'' 630 700))])
       = [(\<lparr>r_crn = Some ''11111'', r_course = None, r_professor = None\<rparr>,
           \<lparr>r_crn = Some ''22222'', r_course = None, r_professor = None\<rparr>,
           {CHR ''M'', CHR ''W''}, ''s - e'', ''s - e'')]
   \<and> detect_conflicts so [mk_course ''11111'' (Some (mk_time ''MW'' 510 645)),
                          mk_course ''22222'' (Some (mk_time ''TF'' 630 700))] = []
   \<and> detect_conflicts so [mk_course ''11111'' (Some (mk_time ''M'' 510 600)),
                          mk_course ''22222'' (Some (mk_time ''M'' 600 690))] = []
   \<and> detect_conflicts so [mk_course ''22222'' (Some (mk_time ''M'' 600 690)),
                          mk_course ''11111'' (Some (mk_time ''M'' 510 600))] = []
   \<and> detect_conflicts so [mk_course ''11111'' (Some (mk_time ''MW'' 510 645)),
                          mk_course ''33333'' None,
                          mk_course ''22222'' (Some (mk_time ''MW'' 630 700))]
       = detect_conflicts so [mk_course ''11111'' (Some (mk_time ''MW'' 510 645)),
                             mk_course ''22222'' (Some (mk_time ''MW'' 630 700))]"
proof -
  have pairs: "set (index_pairs (length cs)) = {(i, j). i < j \<and> j < length cs}"
    using in_index_pairs by auto
  show ?thesis
    using detect_conflicts_pairs [of so cs] pairs conflict_of_iff [of so c1 c2]
      example_overlap_content
      example_overlap [of so] example_disjoint_days [of so] example_back_to_back [of so]
      example_no_interval [of so]
    by (intro conjI) blast+
qed

text \<open>
  Claim C9, as stated, fails: two runs on the same section list need not give the same
  output list. The list \<^verbatim>\<open>conflicting_days\<close> of a Conflict is \<^verbatim>\<open>list(shared_days)\<close>, in the
  iteration order of a set, and that order differs between interpreter processes. For two
  sections on the days M and W with overlapping intervals, a process whose set iterates
  M before W reports the days as M, W, one whose set iterates W before M reports them as
  W, M, and the two output lists differ.
\<close>

theorem detect_conflicts_day_order_counterexample:
  "map conflicting_days
     (detect_conflicts days_in_order [mk_course ''11111'' (Some (mk_time ''MW'' 510 645)),
                                      mk_course ''22222'' (Some (mk_time ''MW'' 630 700))])
     = [''MW'']
   \<and> map conflicting_days
     (detect_conflicts days_in_reverse [mk_course ''11111'' (Some (mk_time ''MW'' 510 645)),
                                        mk_course ''22222'' (Some (mk_time ''MW'' 630 700))])
     = [''WM'']
   \<and> detect_conflicts days_in_order [mk_course ''11111'' (Some (mk_time ''MW'' 510 645)),
                                     mk_course ''22222'' (Some (mk_time ''MW'' 630 700))]
     \<noteq> detect_conflicts days_in_reverse [mk_course ''11111'' (Some (mk_time ''MW'' 510 645)),
                                         mk_course ''22222'' (Some (mk_time ''MW'' 630 700))]"
  by (simp add: example_overlap days_in_order_def days_in_reverse_def)

text \<open>
  Claim C9, amended. The detector lists one Conflict per conflicting index pair, with the
  first index ascending and, for equal first index, the second ascending. Two runs on the
  same section list give lists of the same length whose Conflicts agree, position by
  position, in both course references, both time strings and the set of conflicting days;
  only the order of the letters inside \<^verbatim>\<open>conflicting_days\<close> may differ between two
  processes. Two runs in which the sets iterate alike on the day lists of the input, as
  within one process, give identical output lists. Three sections that conflict pairwise
  are reported as (0,1), (0,2), (1,2).
\<close>

theorem detect_conflicts_stable_up_to_day_order:
  "map Some (detect_conflicts so cs) =
     map (\<lambda>(i, j). conflict_of so (cs ! i) (cs ! j)) (conflict_pairs cs)
   \<and> sorted_wrt pair_before (conflict_pairs cs)
   \<and> (lists_shared_days so \<and> lists_shared_days so' \<longrightarrow>
        map content (detect_conflicts so cs) = map content (detect_conflicts so' cs))
   \<and> (same_day_order so so' cs \<longrightarrow> detect_conflicts so cs = detect_conflicts so' cs)
   \<and> same_day_order so so cs
   \<and> map (\<lambda>c. (r_crn (course1 c), r_crn (course2 c)))
       (detect_conflicts so [mk_course ''A'' (Some (mk_time ''M'' 500 600)),
                             mk_course ''B'' (Some (mk_time ''M'' 510 610)),
                             mk_course ''C'' (Some (mk_time ''M'' 520 620))])
     = [(Some ''A'', Some ''B''), (Some ''A'', Some ''C''), (Some ''B'', Some ''C'')]"
proof -
  have a: "map Some (detect_conflicts so cs) =
     map (\<lambda>(i, j). conflict_of so (cs ! i) (cs ! j)) (conflict_pairs cs)"
    unfolding detect_conflicts_pairs map_Some_map_filter conflict_pairs_def
    by (simp add: case_prod_unfold conflict_of_Some_overlapping)
  have b: "sorted_wrt pair_before (conflict_pairs cs)"
    unfolding conflict_pairs_def by (rule sorted_wrt_filter) (rule sorted_index_pairs)
  have c: "same_day_order so so cs"
    by (auto simp: same_day_order_def list_all_iff split: option.splits)
  show ?thesis
    using a b c detect_conflicts_content [of so so' cs] detect_conflicts_same_order [of so so' cs]
      example_order [of so]
    by blast
qed

text \<open>
  Two processes that list the shared days in opposite orders: on two overlapping sections
  held on M and W their outputs agree up to the order of the day letters, and on two
  overlapping sections held on M alone their outputs are identical.
\<close>

theorem detect_conflicts_stable_up_to_day_order_witness:
  "lists_shared_days days_in_order
   \<and> lists_shared_days days_in_reverse
   \<and> map content (detect_conflicts days_in_order
            [mk_course ''11111'' (Some (mk_time ''MW'' 510 645)),
             mk_course ''22222'' (Some (mk_time ''MW'' 630 700))])
     = map content (detect_conflicts days_in_reverse
            [mk_course ''11111'' (Some (mk_time ''MW'' 510 645)),
             mk_course ''22222'' (Some (mk_time ''MW'' 630 700))])
   \<and> same_day_order days_in_order days_in_reverse
        [mk_course ''A'' (Some (mk_time ''M'' 500 600)), mk_course ''B'' (Some (mk_time ''M'' 510 610))]
   \<and> detect_conflicts days_in_order
        [mk_course ''A'' (Some (mk_time ''M'' 500 600)), mk_course ''B'' (Some (mk_time ''M'' 510 610))]
     = detect_conflicts days_in_reverse
        [mk_course ''A'' (Some (mk_time ''M'' 500 600)), mk_course ''B'' (Some (mk_time ''M'' 510 610))]"
  using detect_conflicts_stable_up_to_day_order
      [of days_in_order "[mk_course ''11111'' (Some (mk_time ''MW'' 510 645)),
                          mk_course ''22222'' (Some (mk_time ''MW'' 630 700))]" days_in_reverse]
    detect_conflicts_stable_up_to_day_order
      [of days_in_order "[mk_course ''A'' (Some (mk_time ''M'' 500 600)),
                          mk_course ''B'' (Some (mk_time ''M'' 510 610))]" days_in_reverse]
    days_in_order_law days_in_reverse_law example_single_day_order
  by blast

section \<open>Verification: name normalisation and matching\<close>

lemma filter_parts_eq: "filter_parts n i ps = filter (\<lambda>t. 1 < length t) (map clean_part ps)"
  by (induction ps arbitrary: i) (auto simp: Let_def)

lemma match_unfold:
  "match_professor_name_strict s c \<longleftrightarrow>
     (2 \<le> length (normalize_name s) \<and> 2 \<le> length (normalize_name c) \<and>
      ((hd (normalize_name s) = hd (normalize_name c) \<and>
        last (normalize_name s) = last (normalize_name c)) \<or>
       (hd (normalize_name s) = last (normalize_name c) \<and>
        last (normalize_name s) = hd (normalize_name c))))"
  by (auto simp: match_professor_name_strict_def Let_def)

lemma match_example_middle_initial:
  "match_professor_name_strict ''Clare Nguyen'' ''Clare M. Nguyen'' = True"
  by code_simp

lemma match_example_other_first_name:
  "match_professor_name_strict ''Clare Nguyen'' ''John Nguyen'' = False"
  by code_simp

lemma match_example_concatenated:
  "match_professor_name_strict ''Roderic Taylor'' ''RodericTaylor'' = True"
  by code_simp

lemma match_example_glued_initial:
  "match_professor_name_strict ''Christopher Bradley'' ''Christopher N.Bradley'' = True"
  by code_simp

text \<open>
  Claim C3. For all name strings, the matcher answers true exactly when both normalised
  token sequences have at least two tokens and either the first tokens agree and the last
  tokens agree, or the first token of the search name is the last of the candidate and
  the last of the search name is the first of the candidate. The four examples of the
  specification evaluate as stated.
\<close>

theorem match_professor_name_strict_first_last:
  "(match_professor_name_strict s c \<longleftrightarrow>
     (2 \<le> length (normalize_name s) \<and> 2 \<le> length (normalize_name c) \<and>
      ((hd (normalize_name s) = hd (normalize_name c) \<and>
        last (normalize_name s) = last (normalize_name c)) \<or>
       (hd (normalize_name s) = last (normalize_name c) \<and>
        last (normalize_name s) = hd (normalize_name c)))))
   \<and> match_professor_name_strict ''Clare Nguyen'' ''Clare M. Nguyen'' = True
   \<and> match_professor_name_strict ''Clare Nguyen'' ''John Nguyen'' = False
   \<and> match_professor_name_strict ''Roderic Taylor'' ''RodericTaylor'' = True
   \<and> match_professor_name_strict ''Christopher Bradley'' ''Christopher N.Bradley'' = True"
  using match_unfold [of s c] match_example_middle_initial match_example_other_first_name
    match_example_concatenated match_example_glued_initial
  by blast

text \<open>
  Claim C4, as stated, fails: the post-filter does not retain a single-letter token at the
  first or at the last position. The name "J Smith" splits into the tokens "J" and
  "Smith", and only "smith" is returned; likewise for "Smith J".
\<close>

theorem normalize_name_drops_outer_initial_counterexample:
  "filter_parts 2 0 [''J'', ''Smith''] = [''smith'']
   \<and> normalize_name ''J Smith'' = [''smith'']
   \<and> normalize_name ''Smith J'' = [''smith'']"
  by code_simp

text \<open>
  Claim C4, amended. The post-filter cleans every token (lower case, surrounding white
  space stripped, periods removed) and discards each token whose cleaned form has fewer
  than two characters, whatever its position; the remaining cleaned tokens are returned in
  their order.
\<close>

theorem filter_parts_keeps_long_tokens:
  "filter_parts n i parts = filter (\<lambda>t. 1 < length t) (map clean_part parts)"
  by (rule filter_parts_eq)

text \<open>
  Claim C10. The matcher is symmetric in its two arguments.
\<close>

theorem match_professor_name_strict_symmetric:
  "match_professor_name_strict a b = match_professor_name_strict b a"
  unfolding match_unfold by auto

section \<open>Verification: de-duplication\<close>

lemma dedup_loop_acc: "dedup_loop seen acc cs = acc @ dedup_loop seen [] cs"
proof (induction cs arbitrary: seen acc)
  case Nil
  show ?case by simp
next
  case (Cons c cs)
  show ?case
    using Cons.IH [of "insert (crn c) seen" "acc @ [c]"] Cons.IH [of "insert (crn c) seen" "[c]"]
      Cons.IH [of seen acc]
    by simp
qed

lemma dedup_loop_Cons:
  "dedup_loop seen [] (c # cs) =
     (if crn c \<notin> seen \<or> crn c = ''N/A'' then c # dedup_loop (insert (crn c) seen) [] cs
      else dedup_loop seen [] cs)"
  using dedup_loop_acc [of "insert (crn c) seen" "[c]" cs] by simp

lemma dedup_loop_subseq: "subseq (dedup_loop seen [] cs) cs"
proof (induction cs arbitrary: seen)
  case Nil
  show ?case by simp
next
  case (Cons c cs)
  show ?case
    unfolding dedup_loop_Cons
    using Cons.IH [of "insert (crn c) seen"] Cons.IH [of seen]
    by (auto intro: subseq_Cons')
qed

lemma dedup_loop_filter:
  "filter (\<lambda>c. crn c = k) (dedup_loop seen [] cs) =
     (if k = ''N/A'' then filter (\<lambda>c. crn c = k) cs
      else if k \<in> seen then []
      else take 1 (filter (\<lambda>c. crn c = k) cs))"
proof (induction cs arbitrary: seen)
  case Nil
  show ?case by simp
next
  case (Cons c cs)
  show ?case
    unfolding dedup_loop_Cons
    using Cons.IH [of "insert (crn c) seen"] Cons.IH [of seen]
    by (cases "crn c = k") (auto split: if_splits)
qed

lemma dedup_example_same_crn:
  "remove_duplicates [mk_info ''12345'' ''A'', mk_info ''12345'' ''B''] = [mk_info ''12345'' ''A'']"
  by (simp add: remove_duplicates_def mk_info_def)

lemma dedup_example_no_crn:
  "remove_duplicates [mk_info ''N/A'' ''A'', mk_info ''N/A'' ''B''] = [mk_info ''N/A'' ''A'', mk_info ''N/A'' ''B'']"
  by (simp add: remove_duplicates_def mk_info_def)

text \<open>
  Claim C5. For every list of extracted records, the records that survive de-duplication
  are a subsequence of the input (their relative order is kept); the records with CRN
  "N/A" all survive; and for any other CRN exactly the first record of the input that
  carries it survives. Two records with CRN "12345" collapse to the first, and two
  records with CRN "N/A" both remain.
\<close>

theorem remove_duplicates_keeps_first_per_crn:
  "subseq (remove_duplicates cs) cs
   \<and> filter (\<lambda>c. crn c = k) (remove_duplicates cs) =
       (if k = ''N/A'' then filter (\<lambda>c. crn c = k) cs
        else take 1 (filter (\<lambda>c. crn c = k) cs))
   \<and> remove_duplicates [mk_info ''12345'' ''A'', mk_info ''12345'' ''B'']
       = [mk_info ''12345'' ''A'']
   \<and> remove_duplicates [mk_info ''N/A'' ''A'', mk_info ''N/A'' ''B'']
       = [mk_info ''N/A'' ''A'', mk_info ''N/A'' ''B'']"
  using dedup_loop_subseq [of "{}" cs] dedup_loop_filter [of k "{}" cs]
    dedup_example_same_crn dedup_example_no_crn
  by (simp add: remove_duplicates_def)

section \<open>Verification: class-time parsing\<close>

text \<open>
  Claim C2. The parser maps "M W 08:30 AM-10:45 AM" to the interval with days M and W,
  start 510, end 645 and duration 135 minutes, and returns nothing for "TBA" and for the
  empty string.
\<close>

theorem parse_class_time_examples:
  "parse_class_time ''M W 08:30 AM-10:45 AM'' =
     Some \<lparr>days = [CHR ''M'', CHR ''W''], day_names = [''Monday'', ''Wednesday''],
           start_time = ''08:30 AM'', end_time = ''10:45 AM'',
           start_minutes = 510, end_minutes = 645, duration_minutes = 135\<rparr>
   \<and> parse_class_time ''TBA'' = None
   \<and> parse_class_time [] = None"
  by code_simp

section \<open>Verification: the retry loop\<close>

declare attempt_loop.simps [simp del]

lemma retries_from_step: "a < k \<Longrightarrow> retries_from a k = [Get a, Sleep ((a + 1) * 2)] @ retries_from (Suc a) k"
  by (simp add: retries_from_def upt_conv_Cons)

lemma retries_from_self: "retries_from k k = [Get k]"
  by (simp add: retries_from_def)

lemma loop_success:
  "\<lbrakk>\<forall>i. a \<le> i \<and> i < k \<longrightarrow> (\<exists>c. try_fetch (net i) = Inl c); try_fetch (net k) = Inr soup;
    a \<le> k; int k < n\<rbrakk>
   \<Longrightarrow> attempt_loop n net a le log = (Inr soup, log @ retries_from a k)"
proof (induction "k - a" arbitrary: a le log)
  case 0
  then have "a = k" by simp
  with 0 show ?case
    by (subst attempt_loop.simps) (simp add: retries_from_self)
next
  case (Suc d)
  then have lt: "a < k" by simp
  from Suc.prems(1) lt obtain c where c: "try_fetch (net a) = Inl c" by blast
  have more: "int a < n - 1" using lt Suc.prems(4) by simp
  have "attempt_loop n net a le log =
          attempt_loop n net (Suc a) (Some c) (log @ [Get a, Sleep ((a + 1) * 2)])"
    using c more by (subst attempt_loop.simps) simp
  also have "\<dots> = (Inr soup, (log @ [Get a, Sleep ((a + 1) * 2)]) @ retries_from (Suc a) k)"
    using Suc.hyps(2) Suc.prems lt by (intro Suc.hyps(1)) auto
  finally show ?case using lt by (simp add: retries_from_step)
qed

lemma loop_exhausted:
  "\<lbrakk>\<forall>i. a \<le> i \<and> i < nat n \<longrightarrow> try_fetch (net i) = Inl (c i); a < nat n\<rbrakk>
   \<Longrightarrow> attempt_loop n net a le log =
         (Inl (FetchFailed n (Some (c (nat n - 1)))), log @ retries_from a (nat n - 1))"
proof (induction "nat n - 1 - a" arbitrary: a le log)
  case 0
  then have a: "a = nat n - 1" and n: "0 < n" by auto
  have f: "try_fetch (net a) = Inl (c a)" using 0 by simp
  have "attempt_loop n net a le log = attempt_loop n net (Suc a) (Some (c a)) (log @ [Get a])"
    using f a n by (subst attempt_loop.simps) auto
  also have "\<dots> = (Inl (FetchFailed n (Some (c a))), log @ [Get a])"
    using a n by (subst attempt_loop.simps) auto
  finally show ?case using a by (simp add: retries_from_self)
next
  case (Suc d)
  then have lt: "a < nat n - 1" by simp
  have f: "try_fetch (net a) = Inl (c a)" using Suc.prems by simp
  have more: "int a < n - 1" using lt by auto
  have "attempt_loop n net a le log =
          attempt_loop n net (Suc a) (Some (c a)) (log @ [Get a, Sleep ((a + 1) * 2)])"
    using f more by (subst attempt_loop.simps) simp
  also have "\<dots> = (Inl (FetchFailed n (Some (c (nat n - 1)))),
                     (log @ [Get a, Sleep ((a + 1) * 2)]) @ retries_from (Suc a) (nat n - 1))"
    using Suc.hyps(2) Suc.prems lt by (intro Suc.hyps(1)) auto
  finally show ?case using lt by (simp add: retries_from_step)
qed

lemma loop_no_attempts:
  "n \<le> int a \<Longrightarrow> attempt_loop n net a le log = (Inl (FetchFailed n le), log)"
  by (subst attempt_loop.simps) simp

lemma loop_get_count:
  "length (filter is_get (snd (attempt_loop n net a le log)))
     \<le> length (filter is_get log) + (nat n - a)"
proof (induction n net a le log rule: attempt_loop.induct)
  case (1 n net a le log)
  show ?case
  proof (cases "int a < n")
    case False
    then show ?thesis by (subst attempt_loop.simps) simp
  next
    case True
    show ?thesis
    proof (cases "try_fetch (net a)")
      case (Inr soup)
      with True show ?thesis by (subst attempt_loop.simps) (auto simp: is_get_def)
    next
      case (Inl e)
      have step: "attempt_loop n net a le log =
          attempt_loop n net (Suc a) (Some e)
               (if int a < n - 1 then log @ [Get a, Sleep ((a + 1) * 2)] else log @ [Get a])"
        using True Inl by (subst attempt_loop.simps) simp
      have "length (filter is_get (snd (attempt_loop n net (Suc a) (Some e)
               (if int a < n - 1 then log @ [Get a, Sleep ((a + 1) * 2)] else log @ [Get a]))))
            \<le> length (filter is_get (if int a < n - 1 then log @ [Get a, Sleep ((a + 1) * 2)] else log @ [Get a]))
                + (nat n - Suc a)"
        using "1.IH" [OF True Inl] .
      also have "\<dots> = Suc (length (filter is_get log)) + (nat n - Suc a)"
        by (simp add: is_get_def)
      also have "\<dots> = length (filter is_get log) + (nat n - a)"
        using True by auto
      finally show ?thesis unfolding step .
    qed
  qed
qed

lemma validate_good_page: "validate good_page = Inr good_page"
  by code_simp

lemma try_fetch_fails_before:
  "try_fetch (fails_before k i) = (if i < k then Inl (RequestError ''timeout'') else Inr good_page)"
  by (simp add: try_fetch_def fails_before_def validate_good_page)

lemma retries_from_examples:
  "retries_from 0 1 = [Get 0, Sleep 2, Get 1]"
  "retries_from 0 2 = [Get 0, Sleep 2, Get 1, Sleep 4, Get 2]"
  by code_simp+

text \<open>
  Claim C7. A run makes at most \<open>max_retries\<close> requests. If the attempts before \<open>k\<close> fail
  and attempt \<open>k\<close> (with \<open>k < max_retries\<close>) passes the checks, the run returns that page,
  and its events are exactly: for each failed attempt \<open>i < k\<close> the request and then a sleep
  of \<open>(i + 1) * 2\<close> seconds, and last the request of attempt \<open>k\<close>; nothing follows the
  successful request. If all \<open>max_retries\<close> attempts fail, the run raises the aggregate
  error with the cause of the last attempt; its events are the requests with the sleeps
  between them, and no sleep follows the last request.
\<close>

theorem get_listings_retries:
  "length (filter is_get (snd (get_listings n net))) \<le> nat n
   \<and> ((\<forall>i<k. \<exists>e. try_fetch (net i) = Inl e) \<and> try_fetch (net k) = Inr soup \<and> int k < n
        \<longrightarrow> get_listings n net = (Inr soup, retries_from 0 k))
   \<and> ((\<forall>i<nat n. try_fetch (net i) = Inl (c i)) \<and> 0 < n
        \<longrightarrow> get_listings n net =
              (Inl (FetchFailed n (Some (c (nat n - 1)))), retries_from 0 (nat n - 1)))"
proof (intro conjI impI)
  show "length (filter is_get (snd (get_listings n net))) \<le> nat n"
    using loop_get_count [of n net 0 None "[]"] by (simp add: get_listings_def)
next
  assume "(\<forall>i<k. \<exists>e. try_fetch (net i) = Inl e) \<and> try_fetch (net k) = Inr soup \<and> int k < n"
  then show "get_listings n net = (Inr soup, retries_from 0 k)"
    using loop_success [of 0 k net soup n None "[]"] by (simp add: get_listings_def)
next
  assume "(\<forall>i<nat n. try_fetch (net i) = Inl (c i)) \<and> 0 < n"
  then show "get_listings n net =
      (Inl (FetchFailed n (Some (c (nat n - 1)))), retries_from 0 (nat n - 1))"
    using loop_exhausted [of 0 n net c None "[]"] by (simp add: get_listings_def)
qed

text \<open>
  The claim's two scenarios with \<open>max_retries = 3\<close>: a time-out followed by a good page
  gives the page after two requests and one sleep of 2 seconds, with no third request;
  three time-outs give the aggregate error with the last cause, after three requests and
  sleeps of 2 and 4 seconds.
\<close>

theorem get_listings_retries_witness:
  "get_listings 3 (fails_before 1) = (Inr good_page, [Get 0, Sleep 2, Get 1])
   \<and> get_listings 3 (fails_before 3) =
       (Inl (FetchFailed 3 (Some (RequestError ''timeout''))), [Get 0, Sleep 2, Get 1, Sleep 4, Get 2])"
proof -
  have a: "get_listings 3 (fails_before 1) = (Inr good_page, retries_from 0 1)"
    using get_listings_retries [of 3 "fails_before 1" 1 good_page "\<lambda>_. RequestError ''timeout''"]
    by (simp add: try_fetch_fails_before)
  have b: "get_listings 3 (fails_before 3) =
       (Inl (FetchFailed 3 (Some (RequestError ''timeout''))), retries_from 0 (nat 3 - 1))"
    using get_listings_retries [of 3 "fails_before 3" 0 good_page "\<lambda>_. RequestError ''timeout''"]
    by (simp add: try_fetch_fails_before)
  have c: "nat 3 - 1 = (2::nat)" by simp
  show ?thesis using a b unfolding c retries_from_examples by simp
qed

section \<open>Verification: row extraction\<close>

lemma crn_from_length: "crn_from b s = Some g \<Longrightarrow> length g = 5"
  by (induction b s rule: crn_from.induct) (auto split: if_splits)

lemma crn_search_nonempty: "crn_search s = Some g \<Longrightarrow> g \<noteq> []"
  using crn_from_length [of False s g] by (auto simp: crn_search_def)

lemma find_crn_truthy: "truthy (find_crn v t) \<longleftrightarrow> truthy v \<or> crn_search t \<noteq> None"
  using crn_search_nonempty [of t]
  by (auto simp: find_crn_def truthy_def split: option.splits)

lemma scan_cell_crn: "f_crn (scan_cell code st c) = find_crn (f_crn st) (cell_text c)"
  by (simp add: scan_cell_def Let_def)

lemma foldl_scan_crn:
  "truthy (f_crn (foldl (scan_cell code) st cs)) \<longleftrightarrow>
     truthy (f_crn st) \<or> (\<exists>c\<in>set cs. crn_search (cell_text c) \<noteq> None)"
proof (induction cs arbitrary: st)
  case Nil
  show ?case by simp
next
  case (Cons c cs)
  show ?case
    using Cons.IH [of "scan_cell code st c"]
    by (simp add: scan_cell_crn find_crn_truthy)
qed

lemma scan_cells_crn:
  "truthy (f_crn (scan_cells code cs)) \<longleftrightarrow> (\<exists>c\<in>set cs. crn_search (cell_text c) \<noteq> None)"
  using foldl_scan_crn [of code "\<lparr>f_crn = None, f_professor = None, f_days = None, f_time_str = None\<rparr>" cs]
  by (simp add: scan_cells_def truthy_def)

lemma or_default_nonempty: "d \<noteq> [] \<Longrightarrow> or_default v d \<noteq> []"
  by (auto simp: or_default_def split: option.splits)

lemma or_default_missing: "\<not> truthy v \<Longrightarrow> or_default v d = d"
  by (auto simp: or_default_def truthy_def split: option.splits)

lemma or_default_found: "v = Some s \<Longrightarrow> s \<noteq> [] \<Longrightarrow> or_default v d = s"
  by (simp add: or_default_def)

lemma truthy_or_default: "truthy v \<Longrightarrow> or_default v [] \<noteq> []"
  by (auto simp: or_default_def truthy_def split: option.splits)

lemma combine_time_missing: "\<not> truthy (f_time_str st) \<Longrightarrow> combine_time st = None"
  by (simp add: combine_time_def)

lemma extract_emits_iff:
  "extract_course_from_row r code \<noteq> None \<longleftrightarrow> (\<exists>c\<in>set (cells r). crn_search (cell_text c) \<noteq> None)"
  using scan_cells_crn [of code "cells r"]
  by (simp add: extract_course_from_row_def Let_def)

lemma extract_fields:
  assumes "extract_course_from_row r code = Some info"
  shows "crn info \<noteq> []" and "professor info \<noteq> []" and "class_time info \<noteq> []" and "format info \<noteq> []"
    and "\<not> truthy (f_professor (scan_cells code (cells r))) \<longrightarrow> professor info = ''TBA''"
    and "\<not> truthy (f_time_str (scan_cells code (cells r))) \<longrightarrow> class_time info = ''TBA''"
    and "detect_format r = None \<longrightarrow> format info = ''Unknown''"
proof -
  let ?st = "scan_cells code (cells r)"
  from assms have t: "truthy (f_crn ?st)"
    and i: "info = \<lparr>course = code, crn = or_default (f_crn ?st) [],
                 professor = or_default (f_professor ?st) ''TBA'',
                 class_time = or_default (combine_time ?st) ''TBA'',
                 format = or_default (detect_format r) ''Unknown''\<rparr>"
    by (auto simp: extract_course_from_row_def Let_def split: if_splits)
  show "crn info \<noteq> []" using t by (simp add: i truthy_or_default)
  show "professor info \<noteq> []" by (simp add: i or_default_nonempty)
  show "class_time info \<noteq> []" by (simp add: i or_default_nonempty)
  show "format info \<noteq> []" by (simp add: i or_default_nonempty)
  show "\<not> truthy (f_professor ?st) \<longrightarrow> professor info = ''TBA''"
    by (simp add: i or_default_missing)
  show "\<not> truthy (f_time_str ?st) \<longrightarrow> class_time info = ''TBA''"
    by (simp add: i combine_time_missing or_default_def)
  show "detect_format r = None \<longrightarrow> format info = ''Unknown''"
    by (simp add: i or_default_def)
qed

lemma row_example_crn_only:
  "extract_course_from_row
     \<lparr>cells = [plain_cell ''12345'', plain_cell ''MATH 1A''], hybrid_span = False\<rparr> ''MATH 1A''
   = Some \<lparr>course = ''MATH 1A'', crn = ''12345'', professor = ''TBA'', class_time = ''TBA'',
           format = ''Unknown''\<rparr>"
  by code_simp

lemma row_example_nothing_found:
  "\<not> truthy (f_professor (scan_cells ''MATH 1A'' [plain_cell ''12345'', plain_cell ''MATH 1A'']))"
  "\<not> truthy (f_time_str (scan_cells ''MATH 1A'' [plain_cell ''12345'', plain_cell ''MATH 1A'']))"
  "detect_format \<lparr>cells = [plain_cell ''12345'', plain_cell ''MATH 1A''], hybrid_span = False\<rparr> = None"
  by code_simp+

text \<open>
  Claim C6. For every row, a record is emitted exactly when some cell of the row contains
  a CRN token (five digits standing alone). In every emitted record the CRN, the
  professor, the class time and the format are non-empty strings; the professor is "TBA"
  when the pass found no professor, the class time is "TBA" when it found no time, and the
  format is "Unknown" when no format keyword was found.
\<close>

theorem extract_course_from_row_emits_with_defaults:
  "(extract_course_from_row r code \<noteq> None \<longleftrightarrow>
      (\<exists>c\<in>set (cells r). crn_search (cell_text c) \<noteq> None))
   \<and> (extract_course_from_row r code = Some info \<longrightarrow>
        crn info \<noteq> [] \<and> professor info \<noteq> [] \<and> class_time info \<noteq> [] \<and> format info \<noteq> []
        \<and> (\<not> truthy (f_professor (scan_cells code (cells r))) \<longrightarrow> professor info = ''TBA'')
        \<and> (\<not> truthy (f_time_str (scan_cells code (cells r))) \<longrightarrow> class_time info = ''TBA'')
        \<and> (detect_format r = None \<longrightarrow> format info = ''Unknown''))"
  using extract_emits_iff [of r code] extract_fields [of r code info]
  by blast

text \<open>
  A row with the cells "12345" and "MATH 1A" and nothing else: a record is emitted, no
  professor, time or format is found, and the three fields carry their sentinels.
\<close>

theorem extract_course_from_row_emits_with_defaults_witness:
  "extract_course_from_row
     \<lparr>cells = [plain_cell ''12345'', plain_cell ''MATH 1A''], hybrid_span = False\<rparr> ''MATH 1A''
   = Some \<lparr>course = ''MATH 1A'', crn = ''12345'', professor = ''TBA'', class_time = ''TBA'',
           format = ''Unknown''\<rparr>
   \<and> \<not> truthy (f_professor (scan_cells ''MATH 1A'' [plain_cell ''12345'', plain_cell ''MATH 1A'']))
   \<and> \<not> truthy (f_time_str (scan_cells ''MATH 1A'' [plain_cell ''12345'', plain_cell ''MATH 1A'']))
   \<and> detect_format \<lparr>cells = [plain_cell ''12345'', plain_cell ''MATH 1A''], hybrid_span = False\<rparr> = None
   \<and> (\<exists>c\<in>set [plain_cell ''12345'', plain_cell ''MATH 1A'']. crn_search (cell_text c) \<noteq> None)"
  using extract_course_from_row_emits_with_defaults
      [of "\<lparr>cells = [plain_cell ''12345'', plain_cell ''MATH 1A''], hybrid_span = False\<rparr>" "''MATH 1A''"
          "\<lparr>course = ''MATH 1A'', crn = ''12345'', professor = ''TBA'', class_time = ''TBA'',
            format = ''Unknown''\<rparr>"]
    row_example_crn_only row_example_nothing_found
  by simp

section \<open>Verification: rating extraction\<close>

lemma extract_ratings_None_iff:
  "extract_ratings f tcard page = None \<longleftrightarrow>
     final_rating f tcard page = None \<and> final_num_ratings tcard page = None \<and>
     final_difficulty f tcard page = None"
  by (simp add: extract_ratings_def Let_def)

lemma extract_ratings_Some:
  "extract_ratings f tcard page = Some res \<Longrightarrow>
     rating res = final_rating f tcard page \<and> num_ratings res = final_num_ratings tcard page \<and>
     difficulty res = final_difficulty f tcard page \<and> url res = professor_url tcard"
  by (auto simp: extract_ratings_def Let_def split: if_splits)

lemma rating_example_count_only:
  "extract_ratings no_float count_only_card empty_page =
     Some \<lparr>rating = None, num_ratings = Some 65, difficulty = None,
           url = Some ''https://www.ratemyprofessors.com/professor/123''\<rparr>"
  by code_simp

text \<open>
  Claim C8, as stated, fails: the profile URL is one of the fields the claim lists, and a
  card from which only the URL can be extracted gives no result at all. For a matched card
  that is a link to \<^verbatim>\<open>/professor/123\<close> and shows no rating, count or difficulty, on a page
  without the profile-page elements, the URL is found and the resolver returns nothing.
\<close>

theorem extract_ratings_url_only_counterexample:
  "professor_url link_only_card = Some ''https://www.ratemyprofessors.com/professor/123''
   \<and> extract_ratings no_float link_only_card empty_page = None"
  by code_simp

text \<open>
  Claim C8, amended. The resolver returns nothing exactly when none of the rating, the
  review count and the difficulty could be extracted, from the card or from the
  profile-page layout, whether or not a profile URL was found. When it returns a result,
  the result holds each of the four fields (rating, review count, difficulty, profile
  URL) exactly as extracted, the fields that were not found being absent.
\<close>

theorem extract_ratings_gate:
  "(extract_ratings f tcard page = None \<longleftrightarrow>
      final_rating f tcard page = None \<and> final_num_ratings tcard page = None \<and>
      final_difficulty f tcard page = None)
   \<and> (extract_ratings f tcard page = Some res \<longrightarrow>
        rating res = final_rating f tcard page \<and> num_ratings res = final_num_ratings tcard page \<and>
        difficulty res = final_difficulty f tcard page \<and> url res = professor_url tcard)"
  using extract_ratings_None_iff [of f tcard page] extract_ratings_Some [of f tcard page res]
  by blast

text \<open>
  A card that shows only "65 ratings" and links to the profile: the result holds the count
  65 and the URL, and neither a rating nor a difficulty.
\<close>

theorem extract_ratings_gate_witness:
  "extract_ratings no_float count_only_card empty_page =
     Some \<lparr>rating = None, num_ratings = Some 65, difficulty = None,
           url = Some ''https://www.ratemyprofessors.com/professor/123''\<rparr>
   \<and> final_rating no_float count_only_card empty_page = None
   \<and> final_num_ratings count_only_card empty_page = Some 65
   \<and> final_difficulty no_float count_only_card empty_page = None
   \<and> professor_url count_only_card = Some ''https://www.ratemyprofessors.com/professor/123''"
  using extract_ratings_gate [of no_float count_only_card empty_page
      "\<lparr>rating = None, num_ratings = Some 65, difficulty = None,
        url = Some ''https://www.ratemyprofessors.com/professor/123''\<rparr>"]
    rating_example_count_only
  by simp

end
